theory Spec2Isabelle
  imports Complex_Main "HOL-Library.Monad_Syntax"
begin

section \<open>Python values and library functions used by the converters\<close>

text \<open>
  Python floats are modelled as \<^typ>\<open>real\<close>: arithmetic is exact, and the special values
  \<open>inf\<close> and \<open>nan\<close> do not exist. Strings are \<^typ>\<open>string\<close> and are taken to be ASCII, so
  \<open>upper\<close>, \<open>lower\<close>, \<open>isdigit\<close> and the whitespace class are the ASCII ones.
  An exception raised inside a \<open>try\<close> block is the value \<open>None\<close> of an option type; every
  handler of the converters catches \<open>Exception\<close>, so one kind of failure is enough.
\<close>

datatype pyval =
    PyNone
  | PyBool bool
  | PyNum real
  | PyStr string
  | PyList "pyval list"
  | PyDict "(string \<times> pyval) list"

text \<open>
  The library functions that are not part of the repository are parameters of the model:
  \<open>float(s)\<close> (\<open>None\<close> is \<open>ValueError\<close>), \<open>json.loads(s)\<close> (\<open>None\<close> is
  \<open>JSONDecodeError\<close>), the two \<open>re.search\<close> calls of the arc path parser (the groups that
  the code reads: 1 and 2 of the \<open>M\<close> pattern; 1, 2, 6 and 7 of the \<open>A\<close> pattern) and
  \<open>math.degrees(math.atan2(y, x))\<close>.
\<close>

record pylib =
  py_float :: "string \<Rightarrow> real option"
  json_loads :: "string \<Rightarrow> pyval option"
  re_search_M :: "string \<Rightarrow> (string \<times> string) option"
  re_search_A :: "string \<Rightarrow> (string \<times> string \<times> string \<times> string) option"
  atan2_degrees :: "real \<Rightarrow> real \<Rightarrow> real"

text \<open>Truth value of a Python object, as used by \<open>or\<close> and \<open>if\<close>.\<close>

fun truthy :: "pyval \<Rightarrow> bool" where
  "truthy PyNone = False"
| "truthy (PyBool b) = b"
| "truthy (PyNum r) = (r \<noteq> 0)"
| "truthy (PyStr s) = (s \<noteq> [])"
| "truthy (PyList xs) = (xs \<noteq> [])"
| "truthy (PyDict kv) = (kv \<noteq> [])"

definition py_or :: "pyval \<Rightarrow> pyval \<Rightarrow> pyval" where
  "py_or a b = (if truthy a then a else b)"

text \<open>\<open>d.get(k)\<close>: a dictionary is an association list with distinct keys.\<close>

definition dict_get :: "(string \<times> pyval) list \<Rightarrow> string \<Rightarrow> pyval" where
  "dict_get kv k = (case map_of kv k of Some v \<Rightarrow> v | None \<Rightarrow> PyNone)"

text \<open>\<open>for x in v\<close>: the items, or \<open>None\<close> for the \<open>TypeError\<close> of a value that is not iterable.\<close>

fun py_iter :: "pyval \<Rightarrow> pyval list option" where
  "py_iter (PyList xs) = Some xs"
| "py_iter (PyDict kv) = Some (map (\<lambda>p. PyStr (fst p)) kv)"
| "py_iter (PyStr s) = Some (map (\<lambda>c. PyStr [c]) s)"
| "py_iter _ = None"

text \<open>\<open>xs[i]\<close> for \<open>i \<ge> 0\<close>: \<open>None\<close> is \<open>IndexError\<close>.\<close>

definition idx :: "'a list \<Rightarrow> nat \<Rightarrow> 'a option" where
  "idx xs i = (if i < length xs then Some (xs ! i) else None)"

text \<open>\<open>try: body  except Exception: log\<close>, where the body only changes the state as its last step.\<close>

definition try_except :: "'s \<Rightarrow> 's option \<Rightarrow> 's" where
  "try_except s body = (case body of Some s' \<Rightarrow> s' | None \<Rightarrow> s)"

subsection \<open>String methods\<close>

definition startswith :: "string \<Rightarrow> string \<Rightarrow> bool" where
  "startswith s p = (take (length p) s = p)"

definition upper_char :: "char \<Rightarrow> char" where
  "upper_char c =
     (case map_of (zip ''abcdefghijklmnopqrstuvwxyz'' ''ABCDEFGHIJKLMNOPQRSTUVWXYZ'') c of
        Some u \<Rightarrow> u | None \<Rightarrow> c)"

definition lower_char :: "char \<Rightarrow> char" where
  "lower_char c =
     (case map_of (zip ''ABCDEFGHIJKLMNOPQRSTUVWXYZ'' ''abcdefghijklmnopqrstuvwxyz'') c of
        Some l \<Rightarrow> l | None \<Rightarrow> c)"

definition upper :: "string \<Rightarrow> string" where
  "upper s = map upper_char s"

definition lower :: "string \<Rightarrow> string" where
  "lower s = map lower_char s"

definition is_digit :: "char \<Rightarrow> bool" where
  "is_digit c = (c \<in> set ''0123456789'')"

definition isdigit :: "string \<Rightarrow> bool" where
  "isdigit s = (s \<noteq> [] \<and> list_all is_digit s)"

definition is_space :: "char \<Rightarrow> bool" where
  "is_space c = (c \<in> set [CHR '' '', CHR 0x09, CHR 0x0A, CHR 0x0B, CHR 0x0C, CHR 0x0D,
                            CHR 0x1C, CHR 0x1D, CHR 0x1E, CHR 0x1F])"

definition strip :: "string \<Rightarrow> string" where
  "strip s = rev (dropWhile is_space (rev (dropWhile is_space s)))"

text \<open>\<open>s.replace(c, "")\<close> for a one-character \<open>c\<close>.\<close>

definition remove_char :: "char \<Rightarrow> string \<Rightarrow> string" where
  "remove_char c s = filter (\<lambda>d. d \<noteq> c) s"

text \<open>\<open>needle in haystack\<close> on strings.\<close>

fun contains :: "string \<Rightarrow> string \<Rightarrow> bool" where
  "contains [] needle = (needle = [])"
| "contains (c # cs) needle = (startswith (c # cs) needle \<or> contains cs needle)"

text \<open>
  \<open>s.split(sep)\<close> for a non-empty separator: the pieces between the leftmost
  non-overlapping occurrences; the result is never empty.
\<close>

fun split_aux :: "string \<Rightarrow> string \<Rightarrow> string \<Rightarrow> string list" where
  "split_aux sep cur [] = [rev cur]"
| "split_aux sep cur (c # cs) =
     (if sep \<noteq> [] \<and> startswith (c # cs) sep
      then rev cur # split_aux sep [] (drop (length sep - 1) cs)
      else split_aux sep (c # cur) cs)"

definition split :: "string \<Rightarrow> string \<Rightarrow> string list" where
  "split sep s = split_aux sep [] s"

text \<open>\<open>re.split(r'[,\s]+', s)\<close>: the pieces between the maximal runs of commas and whitespace.\<close>

definition is_sep :: "char \<Rightarrow> bool" where
  "is_sep c = (c = CHR '','' \<or> is_space c)"

function re_split_aux :: "string \<Rightarrow> string \<Rightarrow> string list" where
  "re_split_aux cur [] = [rev cur]"
| "re_split_aux cur (c # cs) =
     (if is_sep c then rev cur # re_split_aux [] (dropWhile is_sep cs)
      else re_split_aux (c # cur) cs)"
  by pat_completeness auto
termination
  by (relation "measure (\<lambda>(cur, s). length s)")
     (auto simp: length_dropWhile_le less_Suc_eq_le)

definition re_split_commas_spaces :: "string \<Rightarrow> string list" where
  "re_split_commas_spaces s = re_split_aux [] s"

text \<open>The consecutive pairs read by \<open>for i in range(0, len(values) - 1, 2)\<close>.\<close>

fun pairs :: "'a list \<Rightarrow> ('a \<times> 'a) list" where
  "pairs (a # b # rest) = (a, b) # pairs rest"
| "pairs _ = []"

text \<open>\<open>int(s)\<close> on a string of decimal digits.\<close>

definition digit_val :: "char \<Rightarrow> nat" where
  "digit_val c = (case map_of (zip ''0123456789'' [0, 1, 2, 3, 4, 5, 6, 7, 8, 9]) c of
                    Some d \<Rightarrow> d | None \<Rightarrow> 0)"

definition int_of_digits :: "string \<Rightarrow> nat" where
  "int_of_digits s = fold (\<lambda>c n. 10 * n + digit_val c) s 0"

text \<open>
  A concrete \<open>float\<close> for evaluating examples: plain decimal literals (optional sign, digits,
  optional fraction, surrounding whitespace). On these it agrees with the builtin; every
  other string is reported as \<open>ValueError\<close> here.
\<close>

definition float_decimal :: "string \<Rightarrow> real option" where
  "float_decimal s0 =
     (let s = strip s0;
          neg = (s \<noteq> [] \<and> hd s = CHR ''-'');
          body = (if s \<noteq> [] \<and> (hd s = CHR ''-'' \<or> hd s = CHR ''+'') then tl s else s);
          ip = takeWhile is_digit body;
          rest = dropWhile is_digit body;
          frac = (if rest \<noteq> [] \<and> hd rest = CHR ''.'' then tl rest else rest)
      in if \<not> list_all is_digit frac \<or> (ip = [] \<and> frac = []) then None
         else let v = real (int_of_digits ip) + real (int_of_digits frac) / 10 ^ length frac
              in Some (if neg then - v else v))"

definition example_lib :: pylib where
  "example_lib = \<lparr> py_float = float_decimal,
                   json_loads = (\<lambda>s. None),
                   re_search_M = (\<lambda>s. None),
                   re_search_A = (\<lambda>s. None),
                   atan2_degrees = (\<lambda>y x. 0) \<rparr>"

section \<open>utils/geometry.py\<close>

definition parse_float :: "pylib \<Rightarrow> string \<Rightarrow> real" where
  "parse_float lib v = (case py_float lib v of Some r \<Rightarrow> r | None \<Rightarrow> 0)"

text \<open>The two \<open>while\<close> loops of \<open>normalize_angle\<close>.\<close>

function norm_up :: "real \<Rightarrow> real" where
  "norm_up a = (if a < 0 then norm_up (a + 360) else a)"
  by pat_completeness auto
termination
proof (relation "measure (\<lambda>a. nat \<lceil>- a / 360\<rceil>)")
  show "wf (measure (\<lambda>a::real. nat \<lceil>- a / 360\<rceil>))" by simp
next
  fix a :: real
  assume neg: "a < 0"
  have "- (a + 360) / 360 = - a / 360 - 1" by (simp add: field_simps)
  then have eq: "\<lceil>- (a + 360) / 360\<rceil> = \<lceil>- a / 360\<rceil> - 1"
    by (simp only: ceiling_diff_one)
  from neg have "0 < - a / 360" by simp
  then have "0 < \<lceil>- a / 360\<rceil>" by linarith
  with eq show "(a + 360, a) \<in> measure (\<lambda>a. nat \<lceil>- a / 360\<rceil>)"
    unfolding in_measure by linarith
qed

function norm_down :: "real \<Rightarrow> real" where
  "norm_down a = (if 360 \<le> a then norm_down (a - 360) else a)"
  by pat_completeness auto
termination
proof (relation "measure (\<lambda>a. nat \<lfloor>a / 360\<rfloor>)")
  show "wf (measure (\<lambda>a::real. nat \<lfloor>a / 360\<rfloor>))" by simp
next
  fix a :: real
  assume big: "360 \<le> a"
  have "(a - 360) / 360 = a / 360 - 1" by (simp add: field_simps)
  then have eq: "\<lfloor>(a - 360) / 360\<rfloor> = \<lfloor>a / 360\<rfloor> - 1"
    by (simp only: floor_diff_one)
  from big have "1 \<le> a / 360" by simp
  then have "1 \<le> \<lfloor>a / 360\<rfloor>" by linarith
  with eq show "(a - 360, a) \<in> measure (\<lambda>a. nat \<lfloor>a / 360\<rfloor>)"
    unfolding in_measure by linarith
qed

declare norm_up.simps [simp del] norm_down.simps [simp del]

definition normalize_angle :: "real \<Rightarrow> real" where
  "normalize_angle angle = norm_down (norm_up angle)"

text \<open>\<open>min(...)\<close> and \<open>max(...)\<close> over a non-empty sequence, given as first item and rest.\<close>

fun lmin :: "real \<Rightarrow> real list \<Rightarrow> real" where
  "lmin m [] = m"
| "lmin m (x # xs) = lmin (min m x) xs"

fun lmax :: "real \<Rightarrow> real list \<Rightarrow> real" where
  "lmax m [] = m"
| "lmax m (x # xs) = lmax (max m x) xs"

definition bounding_box :: "(real \<times> real) list \<Rightarrow> real \<times> real \<times> real \<times> real" where
  "bounding_box points =
     (case points of
        [] \<Rightarrow> (0, 0, 0, 0)
      | p # ps \<Rightarrow> (lmin (fst p) (map fst ps), lmin (snd p) (map snd ps),
                  lmax (fst p) (map fst ps), lmax (snd p) (map snd ps)))"

definition expand_bbox :: "real \<times> real \<times> real \<times> real \<Rightarrow> real \<Rightarrow> real \<times> real \<times> real \<times> real" where
  "expand_bbox bbox margin =
     (case bbox of (b0, b1, b2, b3) \<Rightarrow> (b0 - margin, b1 - margin, b2 + margin, b3 + margin))"

section \<open>api/models.py\<close>

datatype PinType =
    INPUT | OUTPUT | BIDIRECTIONAL | TRI_STATE | PASSIVE | FREE | UNSPECIFIED
  | POWER_IN | POWER_OUT | OPEN_COLLECTOR | OPEN_EMITTER | NO_CONNECT

datatype PinShape =
    LINE | INVERTED | CLOCK | INVERTED_CLOCK | INPUT_LOW | CLOCK_LOW | OUTPUT_LOW
  | EDGE_CLOCK_HIGH | NON_LOGIC

datatype PadShape = RECT | CIRCLE | OVAL | ROUNDRECT | TRAPEZOID | CUSTOM

datatype PadType = SMD | THRU_HOLE | NPTH | CONNECT

record Point =
  pt_x :: real
  pt_y :: real

record SymbolPin =
  pin_number :: string
  pin_name :: string
  pin_x :: real
  pin_y :: real
  pin_length :: real
  pin_rotation :: real
  pin_type :: PinType
  pin_shape :: PinShape
  pin_hidden :: bool
  pin_name_visible :: bool
  pin_number_visible :: bool

record SymbolRectangle =
  sr_x :: real
  sr_y :: real
  sr_width :: real
  sr_height :: real
  sr_stroke_width :: real
  sr_fill :: string

record SymbolPolyline =
  sp_points :: "Point list"
  sp_stroke_width :: real
  sp_fill :: string

record SymbolCircle =
  sc_cx :: real
  sc_cy :: real
  sc_radius :: real
  sc_stroke_width :: real
  sc_fill :: string

record SymbolArc =
  sa_cx :: real
  sa_cy :: real
  sa_radius :: real
  sa_start_angle :: real
  sa_end_angle :: real
  sa_stroke_width :: real

record SymbolText =
  st_text :: string
  st_x :: real
  st_y :: real
  st_font_size :: real
  st_rotation :: real
  st_h_align :: string
  st_v_align :: string

record EasyEdaSymbol =
  sym_name :: string
  sym_prefix :: string
  sym_pins :: "SymbolPin list"
  sym_rectangles :: "SymbolRectangle list"
  sym_polylines :: "SymbolPolyline list"
  sym_circles :: "SymbolCircle list"
  sym_arcs :: "SymbolArc list"
  sym_texts :: "SymbolText list"
  sym_properties :: "(string \<times> string) list"
  sym_offset_x :: real
  sym_offset_y :: real
  sym_unit_count :: int

text \<open>\<open>EasyEdaSymbol(name=n)\<close>: the dataclass defaults.\<close>

definition new_symbol :: "string \<Rightarrow> EasyEdaSymbol" where
  "new_symbol n = \<lparr> sym_name = n, sym_prefix = ''U'', sym_pins = [], sym_rectangles = [],
                    sym_polylines = [], sym_circles = [], sym_arcs = [], sym_texts = [],
                    sym_properties = [], sym_offset_x = 0, sym_offset_y = 0,
                    sym_unit_count = 1 \<rparr>"

record FootprintPad =
  pad_number :: string
  pad_x :: real
  pad_y :: real
  pad_width :: real
  pad_height :: real
  pad_shape :: PadShape
  pad_type :: PadType
  pad_rotation :: real
  pad_drill_size :: real
  pad_drill_shape :: string
  pad_layers :: "string list"
  pad_roundrect_ratio :: real


record FootprintLine =
  fl_x1 :: real
  fl_y1 :: real
  fl_x2 :: real
  fl_y2 :: real
  fl_layer :: string
  fl_stroke_width :: real

record FootprintCircle =
  fc_cx :: real
  fc_cy :: real
  fc_radius :: real
  fc_layer :: string
  fc_stroke_width :: real
  fc_fill :: string

record FootprintArc =
  fa_cx :: real
  fa_cy :: real
  fa_radius :: real
  fa_start_angle :: real
  fa_end_angle :: real
  fa_layer :: string
  fa_stroke_width :: real

record FootprintPolygon =
  fg_points :: "Point list"
  fg_layer :: string
  fg_stroke_width :: real
  fg_fill :: string

record FootprintText =
  ft_text :: string
  ft_x :: real
  ft_y :: real
  ft_layer :: string
  ft_font_size :: real
  ft_thickness :: real
  ft_rotation :: real
  ft_text_type :: string

record FootprintHole =
  fh_x :: real
  fh_y :: real
  fh_diameter :: real

record EasyEdaFootprint =
  fp_name :: string
  fp_pads :: "FootprintPad list"
  fp_lines :: "FootprintLine list"
  fp_circles :: "FootprintCircle list"
  fp_arcs :: "FootprintArc list"
  fp_polygons :: "FootprintPolygon list"
  fp_texts :: "FootprintText list"
  fp_holes :: "FootprintHole list"
  fp_model_3d_path :: "string option"
  fp_model_3d_offset :: "real \<times> real \<times> real"
  fp_model_3d_rotation :: "real \<times> real \<times> real"
  fp_model_3d_scale :: "real \<times> real \<times> real"
  fp_bounds :: "(real \<times> real \<times> real \<times> real) option"

definition new_footprint :: "string \<Rightarrow> EasyEdaFootprint" where
  "new_footprint n = \<lparr> fp_name = n, fp_pads = [], fp_lines = [], fp_circles = [], fp_arcs = [],
                       fp_polygons = [], fp_texts = [], fp_holes = [], fp_model_3d_path = None,
                       fp_model_3d_offset = (0, 0, 0), fp_model_3d_rotation = (0, 0, 0),
                       fp_model_3d_scale = (1, 1, 1), fp_bounds = None \<rparr>"

definition has_courtyard :: "EasyEdaFootprint \<Rightarrow> bool" where
  "has_courtyard fp =
     list_ex (\<lambda>line. fl_layer line = ''F.CrtYd'' \<or> fl_layer line = ''B.CrtYd'') (fp_lines fp)"

definition EASYEDA_LAYER_MAP :: "(string \<times> string) list" where
  "EASYEDA_LAYER_MAP =
     [(''1'', ''F.Cu''), (''2'', ''B.Cu''), (''3'', ''F.SilkS''), (''4'', ''B.SilkS''),
      (''5'', ''F.Paste''), (''6'', ''B.Paste''), (''7'', ''F.Mask''), (''8'', ''B.Mask''),
      (''10'', ''Edge.Cuts''), (''11'', ''Edge.Cuts''), (''12'', ''Cmts.User''),
      (''13'', ''F.Fab''), (''14'', ''B.Fab''), (''15'', ''Dwgs.User''),
      (''21'', ''F.CrtYd''), (''22'', ''B.CrtYd''), (''99'', ''F.Fab''),
      (''100'', ''F.SilkS''), (''101'', ''F.SilkS'')]"

definition get_kicad_layer :: "string \<Rightarrow> string" where
  "get_kicad_layer easyeda_layer =
     (case map_of EASYEDA_LAYER_MAP easyeda_layer of Some l \<Rightarrow> l | None \<Rightarrow> ''F.SilkS'')"

definition COMPONENT_PREFIX_MAP :: "(string \<times> string) list" where
  "COMPONENT_PREFIX_MAP =
     [(''resistor'', ''R''), (''capacitor'', ''C''), (''inductor'', ''L''), (''diode'', ''D''),
      (''led'', ''D''), (''transistor'', ''Q''), (''mosfet'', ''Q''), (''ic'', ''U''),
      (''mcu'', ''U''), (''microcontroller'', ''U''), (''connector'', ''J''),
      (''switch'', ''SW''), (''relay'', ''K''), (''crystal'', ''Y''), (''oscillator'', ''Y''),
      (''transformer'', ''T''), (''fuse'', ''F''), (''sensor'', ''U'')]"

definition guess_reference_prefix :: "string \<Rightarrow> string \<Rightarrow> string" where
  "guess_reference_prefix description category =
     (let search_text = lower (description @ '' '' @ category)
      in case find (\<lambda>kp. contains search_text (fst kp)) COMPONENT_PREFIX_MAP of
           Some kp \<Rightarrow> snd kp
         | None \<Rightarrow> ''U'')"

section \<open>converters/symbol_converter.py\<close>

definition SCALE :: real where
  "SCALE = 0.254"

definition sym_parse_point_list :: "pylib \<Rightarrow> string \<Rightarrow> Point list" where
  "sym_parse_point_list lib points_str =
     map (\<lambda>(vx, vy). \<lparr> pt_x = parse_float lib vx * SCALE, pt_y = - (parse_float lib vy * SCALE) \<rparr>)
         (pairs (re_split_commas_spaces (strip points_str)))"

text \<open>The test of the pin-name scan on one field (the nested \<open>if\<close>s of the loop body).\<close>

definition pin_name_candidate :: "string \<Rightarrow> bool" where
  "pin_name_candidate part =
     (part \<noteq> [] \<and> \<not> startswith part ''#'' \<and> \<not> startswith part ''^^''
      \<and> \<not> isdigit (remove_char CHR ''-'' (remove_char CHR ''.'' part))
      \<and> part \<notin> set [''start'', ''end'', ''middle'', ''show'', ''hide'', ''0'', ''1'']
      \<and> 0 < length part \<and> length part < 30)"

definition parse_pin :: "pylib \<Rightarrow> string list \<Rightarrow> string \<Rightarrow> EasyEdaSymbol \<Rightarrow> EasyEdaSymbol" where
  "parse_pin lib parts full_str symbol =
     (if length parts < 7 then symbol
      else try_except symbol (do {
        pin_number \<leftarrow> (if length parts > 3 then idx parts 3 else Some ''?'');
        p4 \<leftarrow> idx parts 4;
        p5 \<leftarrow> idx parts 5;
        p6 \<leftarrow> idx parts 6;
        let x = parse_float lib p4 * SCALE;
        let y = parse_float lib p5 * SCALE;
        let rotation = parse_float lib p6;
        let pin_name = (case find pin_name_candidate (drop 10 (take (min (length parts) 20) parts)) of
                          Some part \<Rightarrow> part | None \<Rightarrow> []);
        let pin_length = 2.54;
        let kicad_rotation = normalize_angle (rotation + 180);
        let pin = \<lparr> pin_number = pin_number, pin_name = pin_name, pin_x = x, pin_y = - y,
                    pin_length = pin_length, pin_rotation = kicad_rotation,
                    pin_type = UNSPECIFIED, pin_shape = LINE, pin_hidden = False,
                    pin_name_visible = True, pin_number_visible = True \<rparr>;
        Some (symbol\<lparr>sym_pins := sym_pins symbol @ [pin]\<rparr>)
      }))"

definition parse_rectangle :: "pylib \<Rightarrow> string list \<Rightarrow> EasyEdaSymbol \<Rightarrow> EasyEdaSymbol" where
  "parse_rectangle lib parts symbol =
     (if length parts < 7 then symbol
      else try_except symbol (do {
        p1 \<leftarrow> idx parts 1;
        p2 \<leftarrow> idx parts 2;
        p5 \<leftarrow> idx parts 5;
        p6 \<leftarrow> idx parts 6;
        let x = parse_float lib p1 * SCALE;
        let y = parse_float lib p2 * SCALE;
        let width = parse_float lib p5 * SCALE;
        let height = parse_float lib p6 * SCALE;
        let stroke_width = (if length parts > 8
                            then (case idx parts 8 of Some p8 \<Rightarrow> parse_float lib p8 * SCALE
                                                    | None \<Rightarrow> 0.254)
                            else 0.254);
        let rect = \<lparr> sr_x = x, sr_y = - y - height, sr_width = width, sr_height = height,
                     sr_stroke_width = max stroke_width 0.1, sr_fill = ''none'' \<rparr>;
        Some (symbol\<lparr>sym_rectangles := sym_rectangles symbol @ [rect]\<rparr>)
      }))"

definition parse_polyline :: "pylib \<Rightarrow> string list \<Rightarrow> EasyEdaSymbol \<Rightarrow> EasyEdaSymbol" where
  "parse_polyline lib parts symbol =
     (if length parts < 2 then symbol
      else try_except symbol (do {
        points_str \<leftarrow> idx parts 1;
        let points = sym_parse_point_list lib points_str;
        if points = [] then Some symbol
        else do {
          let stroke_width = (if length parts > 3
                              then (case idx parts 3 of Some p3 \<Rightarrow> parse_float lib p3 * SCALE
                                                      | None \<Rightarrow> 0.254)
                              else 0.254);
          let polyline = \<lparr> sp_points = points, sp_stroke_width = max stroke_width 0.1,
                           sp_fill = ''none'' \<rparr>;
          Some (symbol\<lparr>sym_polylines := sym_polylines symbol @ [polyline]\<rparr>)
        }
      }))"

definition parse_line :: "pylib \<Rightarrow> string list \<Rightarrow> EasyEdaSymbol \<Rightarrow> EasyEdaSymbol" where
  "parse_line lib parts symbol =
     (if length parts < 5 then symbol
      else try_except symbol (do {
        p1 \<leftarrow> idx parts 1;
        p2 \<leftarrow> idx parts 2;
        p3 \<leftarrow> idx parts 3;
        p4 \<leftarrow> idx parts 4;
        let x1 = parse_float lib p1 * SCALE;
        let y1 = parse_float lib p2 * SCALE;
        let x2 = parse_float lib p3 * SCALE;
        let y2 = parse_float lib p4 * SCALE;
        let polyline = \<lparr> sp_points = [\<lparr> pt_x = x1, pt_y = - y1 \<rparr>, \<lparr> pt_x = x2, pt_y = - y2 \<rparr>],
                         sp_stroke_width = 0.254, sp_fill = ''none'' \<rparr>;
        Some (symbol\<lparr>sym_polylines := sym_polylines symbol @ [polyline]\<rparr>)
      }))"

definition sym_parse_circle :: "pylib \<Rightarrow> string list \<Rightarrow> EasyEdaSymbol \<Rightarrow> EasyEdaSymbol" where
  "sym_parse_circle lib parts symbol =
     (if length parts < 4 then symbol
      else try_except symbol (do {
        p1 \<leftarrow> idx parts 1;
        p2 \<leftarrow> idx parts 2;
        p3 \<leftarrow> idx parts 3;
        let cx = parse_float lib p1 * SCALE;
        let cy = parse_float lib p2 * SCALE;
        let radius = parse_float lib p3 * SCALE;
        let circle = \<lparr> sc_cx = cx, sc_cy = - cy, sc_radius = radius, sc_stroke_width = 0.254,
                       sc_fill = ''none'' \<rparr>;
        Some (symbol\<lparr>sym_circles := sym_circles symbol @ [circle]\<rparr>)
      }))"

definition sym_parse_arc :: "pylib \<Rightarrow> string list \<Rightarrow> EasyEdaSymbol \<Rightarrow> EasyEdaSymbol" where
  "sym_parse_arc lib parts symbol =
     (if length parts < 7 then symbol
      else try_except symbol (do {
        p1 \<leftarrow> idx parts 1;
        p2 \<leftarrow> idx parts 2;
        p3 \<leftarrow> idx parts 3;
        p4 \<leftarrow> idx parts 4;
        p5 \<leftarrow> idx parts 5;
        p6 \<leftarrow> idx parts 6;
        let cx = parse_float lib p1 * SCALE;
        let cy = parse_float lib p2 * SCALE;
        let rx = parse_float lib p3 * SCALE;
        let ry = parse_float lib p4 * SCALE;
        let start_angle = parse_float lib p5;
        let end_angle = parse_float lib p6;
        let radius = (rx + ry) / 2;
        let arc = \<lparr> sa_cx = cx, sa_cy = - cy, sa_radius = radius, sa_start_angle = - end_angle,
                    sa_end_angle = - start_angle, sa_stroke_width = 0.254 \<rparr>;
        Some (symbol\<lparr>sym_arcs := sym_arcs symbol @ [arc]\<rparr>)
      }))"

definition sym_parse_text :: "pylib \<Rightarrow> string list \<Rightarrow> EasyEdaSymbol \<Rightarrow> EasyEdaSymbol" where
  "sym_parse_text lib parts symbol =
     (if length parts < 7 then symbol
      else try_except symbol (do {
        p2 \<leftarrow> idx parts 2;
        p3 \<leftarrow> idx parts 3;
        p4 \<leftarrow> idx parts 4;
        let x = parse_float lib p2 * SCALE;
        let y = parse_float lib p3 * SCALE;
        let rotation = parse_float lib p4;
        font_size \<leftarrow> (if length parts > 6
                      then map_option (\<lambda>p6. parse_float lib p6 * SCALE) (idx parts 6)
                      else Some 1.27);
        text_content \<leftarrow> (if length parts > 8 then idx parts 8 else Some []);
        if text_content \<noteq> [] \<and> \<not> startswith text_content ''#''
        then Some (symbol\<lparr>sym_texts := sym_texts symbol @
                      [\<lparr> st_text = text_content, st_x = x, st_y = - y,
                         st_font_size = max font_size 0.5, st_rotation = rotation,
                         st_h_align = ''center'', st_v_align = ''center'' \<rparr>]\<rparr>)
        else Some symbol
      }))"

text \<open>
  \<open>_parse_polygon\<close> has no guard and no handler of its own: it calls \<open>_parse_polyline\<close> and
  then sets the fill of \<open>polylines[-1]\<close> whenever the list of polylines is not empty.
\<close>

definition parse_polygon :: "pylib \<Rightarrow> string list \<Rightarrow> EasyEdaSymbol \<Rightarrow> EasyEdaSymbol" where
  "parse_polygon lib parts symbol =
     (let sym1 = parse_polyline lib parts symbol;
          pls = sym_polylines sym1
      in if pls \<noteq> []
         then sym1\<lparr>sym_polylines :=
                     pls[length pls - 1 := (pls ! (length pls - 1))\<lparr>sp_fill := ''outline''\<rparr>]\<rparr>
         else sym1)"

text \<open>
  \<open>_parse_shape\<close>: the dispatch on the upper-cased tag. The parsers it calls return normally
  on every input (each one handles its own exceptions), so the handler around the dispatch
  is never entered.
\<close>

definition parse_shape :: "pylib \<Rightarrow> string \<Rightarrow> EasyEdaSymbol \<Rightarrow> EasyEdaSymbol" where
  "parse_shape lib shape_str symbol =
     (if shape_str = [] then symbol
      else (case split ''~'' shape_str of
              [] \<Rightarrow> symbol
            | p0 # rest \<Rightarrow>
               (let parts = p0 # rest; shape_type = upper p0
                in if shape_type = ''P'' then parse_pin lib parts shape_str symbol
                   else if shape_type = ''R'' then parse_rectangle lib parts symbol
                   else if shape_type = ''PL'' then parse_polyline lib parts symbol
                   else if shape_type = ''L'' then parse_line lib parts symbol
                   else if shape_type = ''C'' \<or> shape_type = ''E'' then sym_parse_circle lib parts symbol
                   else if shape_type = ''A'' then sym_parse_arc lib parts symbol
                   else if shape_type = ''T'' then sym_parse_text lib parts symbol
                   else if shape_type = ''PG'' then parse_polygon lib parts symbol
                   else symbol)))"

definition calculate_offset :: "EasyEdaSymbol \<Rightarrow> EasyEdaSymbol" where
  "calculate_offset symbol =
     (let all_points =
            map (\<lambda>pin. (pin_x pin, pin_y pin)) (sym_pins symbol)
            @ concat (map (\<lambda>r. [(sr_x r, sr_y r), (sr_x r + sr_width r, sr_y r + sr_height r)])
                          (sym_rectangles symbol))
            @ concat (map (\<lambda>poly. map (\<lambda>pt. (pt_x pt, pt_y pt)) (sp_points poly))
                          (sym_polylines symbol))
            @ concat (map (\<lambda>c. [(sc_cx c - sc_radius c, sc_cy c - sc_radius c),
                                 (sc_cx c + sc_radius c, sc_cy c + sc_radius c)])
                          (sym_circles symbol))
      in case all_points of
           [] \<Rightarrow> symbol
         | p # ps \<Rightarrow>
            (let min_x = lmin (fst p) (map fst ps); max_x = lmax (fst p) (map fst ps);
                 min_y = lmin (snd p) (map snd ps); max_y = lmax (snd p) (map snd ps);
                 center_x = (min_x + max_x) / 2; center_y = (min_y + max_y) / 2
             in symbol\<lparr>sym_offset_x := - center_x, sym_offset_y := - center_y\<rparr>))"

text \<open>The loop \<open>for shape in shapes\<close> of \<open>convert\<close>: only strings are parsed.\<close>

definition sym_parse_shapes :: "pylib \<Rightarrow> pyval list \<Rightarrow> EasyEdaSymbol \<Rightarrow> EasyEdaSymbol" where
  "sym_parse_shapes lib items symbol =
     fold (\<lambda>shape symbol. case shape of PyStr s \<Rightarrow> parse_shape lib s symbol | _ \<Rightarrow> symbol)
          items symbol"

text \<open>
  The first step of both \<open>convert\<close> methods: a string payload is decoded with
  \<open>json.loads\<close>; \<open>None\<close> is the \<open>JSONDecodeError\<close>, after which \<open>convert\<close> returns
  \<open>None\<close>.
\<close>

definition load_payload :: "pylib \<Rightarrow> pyval \<Rightarrow> pyval option" where
  "load_payload lib payload = (case payload of PyStr s \<Rightarrow> json_loads lib s | _ \<Rightarrow> Some payload)"

text \<open>
  \<open>SymbolConverter.convert\<close>. \<open>None\<close> is the result of the two \<open>return None\<close>: a string
  payload that \<open>json.loads\<close> rejects, and any exception caught by the outer handler (a payload
  without \<open>get\<close>, a \<open>shape\<close> value that cannot be iterated).
\<close>

definition symbol_convert ::
  "pylib \<Rightarrow> pyval \<Rightarrow> string \<Rightarrow> string \<Rightarrow> string \<Rightarrow> EasyEdaSymbol option" where
  "symbol_convert lib symbol_data component_name description category =
     (let symbol0 = (new_symbol component_name)
                      \<lparr>sym_prefix := guess_reference_prefix description category\<rparr>
      in case load_payload lib symbol_data of
           None \<Rightarrow> None
         | Some (PyDict kv) \<Rightarrow>
            (let shapes0 = (case map_of kv ''shape'' of Some v \<Rightarrow> v | None \<Rightarrow> PyList []);
                 shapes = (case shapes0 of
                             PyStr s \<Rightarrow> PyList (map PyStr (split ''#@$'' s))
                           | _ \<Rightarrow> shapes0)
             in case py_iter shapes of
                  None \<Rightarrow> None
                | Some items \<Rightarrow> Some (calculate_offset (sym_parse_shapes lib items symbol0)))
         | Some _ \<Rightarrow> None)"

section \<open>converters/footprint_converter.py\<close>

definition PAD_SHAPE_MAP :: "(string \<times> PadShape) list" where
  "PAD_SHAPE_MAP =
     [(''ELLIPSE'', CIRCLE), (''OVAL'', OVAL), (''RECT'', RECT), (''POLYGON'', CUSTOM),
      (''ROUND'', CIRCLE)]"

definition fp_parse_point_list :: "pylib \<Rightarrow> string \<Rightarrow> (real \<times> real) list" where
  "fp_parse_point_list lib points_str =
     map (\<lambda>(vx, vy). (parse_float lib vx * SCALE, parse_float lib vy * SCALE))
         (pairs (re_split_commas_spaces (strip points_str)))"

definition parse_svg_path_points :: "pylib \<Rightarrow> string \<Rightarrow> (real \<times> real) list" where
  "parse_svg_path_points lib path_str =
     (let clean = map (\<lambda>c. if c \<in> set ''MLZmlz'' then CHR '' '' else c) path_str;
          values = re_split_commas_spaces (strip clean)
      in map (\<lambda>(vx, vy). (parse_float lib vx * SCALE, parse_float lib vy * SCALE)) (pairs values))"

definition parse_arc_path :: "pylib \<Rightarrow> string \<Rightarrow> (real \<times> real \<times> real \<times> real \<times> real) option" where
  "parse_arc_path lib path_data =
     (case (re_search_M lib path_data, re_search_A lib path_data) of
        (Some (m1, m2), Some (a1, a2, a6, a7)) \<Rightarrow>
          (let x1 = parse_float lib m1 * SCALE;
               y1 = parse_float lib m2 * SCALE;
               rx = parse_float lib a1 * SCALE;
               ry = parse_float lib a2 * SCALE;
               x2 = parse_float lib a6 * SCALE;
               y2 = parse_float lib a7 * SCALE;
               radius = (rx + ry) / 2;
               cx = (x1 + x2) / 2;
               cy = (y1 + y2) / 2;
               start_angle = atan2_degrees lib (y1 - cy) (x1 - cx);
               end_angle = atan2_degrees lib (y2 - cy) (x2 - cx)
           in Some (cx, cy, radius, start_angle, end_angle))
      | _ \<Rightarrow> None)"

definition parse_pad :: "pylib \<Rightarrow> string list \<Rightarrow> EasyEdaFootprint \<Rightarrow> EasyEdaFootprint" where
  "parse_pad lib parts fp =
     (if length parts < 9 then fp
      else try_except fp (do {
        p1 \<leftarrow> idx parts 1;
        p2 \<leftarrow> idx parts 2;
        p3 \<leftarrow> idx parts 3;
        p4 \<leftarrow> idx parts 4;
        p5 \<leftarrow> idx parts 5;
        layer \<leftarrow> idx parts 6;
        number \<leftarrow> idx parts 8;
        let shape_str = upper p1;
        let x = parse_float lib p2 * SCALE;
        let y = parse_float lib p3 * SCALE;
        let width = parse_float lib p4 * SCALE;
        let height = parse_float lib p5 * SCALE;
        let shape = (case map_of PAD_SHAPE_MAP shape_str of Some sh \<Rightarrow> sh | None \<Rightarrow> RECT);
        hole_radius \<leftarrow> (if length parts > 9
                        then map_option (\<lambda>p9. parse_float lib p9 * SCALE) (idx parts 9)
                        else Some 0);
        let drill_size = (if length parts > 9 \<and> hole_radius > 0 then hole_radius * 2 else 0);
        let pad_type = (if length parts > 9 \<and> hole_radius > 0 then THRU_HOLE else SMD);
        rotation \<leftarrow> (if length parts > 11
                     then map_option (parse_float lib) (idx parts 11)
                     else Some 0);
        let kicad_layer = get_kicad_layer layer;
        let layers = (if pad_type = THRU_HOLE then [''*.Cu'', ''*.Paste'', ''*.Mask'']
                      else if startswith kicad_layer ''F.'' then [''F.Cu'', ''F.Paste'', ''F.Mask'']
                      else [''B.Cu'', ''B.Paste'', ''B.Mask'']);
        let pad = \<lparr> pad_number = number, pad_x = x, pad_y = - y, pad_width = width,
                    pad_height = height, pad_shape = shape, pad_type = pad_type,
                    pad_rotation = rotation, pad_drill_size = drill_size,
                    pad_drill_shape = ''circle'', pad_layers = layers,
                    pad_roundrect_ratio = 0.25 \<rparr>;
        Some (fp\<lparr>fp_pads := fp_pads fp @ [pad]\<rparr>)
      }))"

definition parse_track :: "pylib \<Rightarrow> string list \<Rightarrow> EasyEdaFootprint \<Rightarrow> EasyEdaFootprint" where
  "parse_track lib parts fp =
     (if length parts < 5 then fp
      else try_except fp (do {
        p1 \<leftarrow> idx parts 1;
        layer \<leftarrow> idx parts 2;
        points_str \<leftarrow> idx parts 4;
        let stroke_width = parse_float lib p1 * SCALE;
        let kicad_layer = get_kicad_layer layer;
        let points = fp_parse_point_list lib points_str;
        let new_lines = map (\<lambda>(a, b). \<lparr> fl_x1 = fst a, fl_y1 = - snd a, fl_x2 = fst b,
                                        fl_y2 = - snd b, fl_layer = kicad_layer,
                                        fl_stroke_width = max stroke_width 0.1 \<rparr>)
                            (zip points (tl points));
        Some (fp\<lparr>fp_lines := fp_lines fp @ new_lines\<rparr>)
      }))"

definition fp_parse_circle :: "pylib \<Rightarrow> string list \<Rightarrow> EasyEdaFootprint \<Rightarrow> EasyEdaFootprint" where
  "fp_parse_circle lib parts fp =
     (if length parts < 6 then fp
      else try_except fp (do {
        p1 \<leftarrow> idx parts 1;
        p2 \<leftarrow> idx parts 2;
        p3 \<leftarrow> idx parts 3;
        p4 \<leftarrow> idx parts 4;
        layer \<leftarrow> idx parts 5;
        let cx = parse_float lib p1 * SCALE;
        let cy = parse_float lib p2 * SCALE;
        let radius = parse_float lib p3 * SCALE;
        let stroke_width = parse_float lib p4 * SCALE;
        let kicad_layer = get_kicad_layer layer;
        let circle = \<lparr> fc_cx = cx, fc_cy = - cy, fc_radius = radius, fc_layer = kicad_layer,
                       fc_stroke_width = max stroke_width 0.1, fc_fill = ''none'' \<rparr>;
        Some (fp\<lparr>fp_circles := fp_circles fp @ [circle]\<rparr>)
      }))"

definition fp_parse_arc :: "pylib \<Rightarrow> string list \<Rightarrow> EasyEdaFootprint \<Rightarrow> EasyEdaFootprint" where
  "fp_parse_arc lib parts fp =
     (if length parts < 5 then fp
      else try_except fp (do {
        p1 \<leftarrow> idx parts 1;
        layer \<leftarrow> idx parts 2;
        path_data \<leftarrow> idx parts 4;
        let stroke_width = parse_float lib p1 * SCALE;
        let kicad_layer = get_kicad_layer layer;
        case parse_arc_path lib path_data of
          Some (cx, cy, radius, start_angle, end_angle) \<Rightarrow>
            Some (fp\<lparr>fp_arcs := fp_arcs fp @
                    [\<lparr> fa_cx = cx, fa_cy = - cy, fa_radius = radius, fa_start_angle = - end_angle,
                       fa_end_angle = - start_angle, fa_layer = kicad_layer,
                       fa_stroke_width = max stroke_width 0.1 \<rparr>]\<rparr>)
        | None \<Rightarrow> Some fp
      }))"

definition parse_rect :: "pylib \<Rightarrow> string list \<Rightarrow> EasyEdaFootprint \<Rightarrow> EasyEdaFootprint" where
  "parse_rect lib parts fp =
     (if length parts < 6 then fp
      else try_except fp (do {
        p1 \<leftarrow> idx parts 1;
        p2 \<leftarrow> idx parts 2;
        p3 \<leftarrow> idx parts 3;
        p4 \<leftarrow> idx parts 4;
        layer \<leftarrow> idx parts 5;
        let x = parse_float lib p1 * SCALE;
        let y = parse_float lib p2 * SCALE;
        let width = parse_float lib p3 * SCALE;
        let height = parse_float lib p4 * SCALE;
        let kicad_layer = get_kicad_layer layer;
        let y_flipped = - y;
        let new_lines =
          [\<lparr> fl_x1 = x, fl_y1 = y_flipped, fl_x2 = x + width, fl_y2 = y_flipped,
              fl_layer = kicad_layer, fl_stroke_width = 0.12 \<rparr>,
           \<lparr> fl_x1 = x + width, fl_y1 = y_flipped, fl_x2 = x + width, fl_y2 = y_flipped - height,
              fl_layer = kicad_layer, fl_stroke_width = 0.12 \<rparr>,
           \<lparr> fl_x1 = x + width, fl_y1 = y_flipped - height, fl_x2 = x, fl_y2 = y_flipped - height,
              fl_layer = kicad_layer, fl_stroke_width = 0.12 \<rparr>,
           \<lparr> fl_x1 = x, fl_y1 = y_flipped - height, fl_x2 = x, fl_y2 = y_flipped,
              fl_layer = kicad_layer, fl_stroke_width = 0.12 \<rparr>];
        Some (fp\<lparr>fp_lines := fp_lines fp @ new_lines\<rparr>)
      }))"

definition parse_solid_region :: "pylib \<Rightarrow> string list \<Rightarrow> EasyEdaFootprint \<Rightarrow> EasyEdaFootprint" where
  "parse_solid_region lib parts fp =
     (if length parts < 4 then fp
      else try_except fp (do {
        layer \<leftarrow> idx parts 1;
        path_str \<leftarrow> idx parts 3;
        let kicad_layer = get_kicad_layer layer;
        if layer \<in> set [''99'', ''100'', ''101''] then Some fp
        else do {
          let points = parse_svg_path_points lib path_str;
          if points = [] then Some fp
          else Some (fp\<lparr>fp_polygons := fp_polygons fp @
                       [\<lparr> fg_points = map (\<lambda>p. \<lparr> pt_x = fst p, pt_y = - snd p \<rparr>) points,
                          fg_layer = kicad_layer, fg_stroke_width = 0.12,
                          fg_fill = ''solid'' \<rparr>]\<rparr>)
        }
      }))"

definition fp_parse_text :: "pylib \<Rightarrow> string list \<Rightarrow> EasyEdaFootprint \<Rightarrow> EasyEdaFootprint" where
  "fp_parse_text lib parts fp =
     (if length parts < 11 then fp
      else try_except fp (do {
        p1 \<leftarrow> idx parts 1;
        p2 \<leftarrow> idx parts 2;
        p3 \<leftarrow> idx parts 3;
        p4 \<leftarrow> idx parts 4;
        p5 \<leftarrow> idx parts 5;
        layer \<leftarrow> idx parts 7;
        p9 \<leftarrow> idx parts 9;
        let text_type_str = lower p1;
        let x = parse_float lib p2 * SCALE;
        let y = parse_float lib p3 * SCALE;
        let stroke_width = parse_float lib p4 * SCALE;
        let rotation = parse_float lib p5;
        let font_size = parse_float lib p9 * SCALE;
        text_content0 \<leftarrow> (if length parts > 10 then idx parts 10 else Some []);
        let kicad_layer = get_kicad_layer layer;
        let text_type = (if text_type_str \<in> set [''ref'', ''reference''] then ''reference''
                         else if text_type_str \<in> set [''val'', ''value''] then ''value''
                         else ''user'');
        let text_content = (if text_type_str \<in> set [''ref'', ''reference''] then ''REF**''
                            else text_content0);
        Some (fp\<lparr>fp_texts := fp_texts fp @
                [\<lparr> ft_text = text_content, ft_x = x, ft_y = - y, ft_layer = kicad_layer,
                   ft_font_size = max font_size 0.5, ft_thickness = max stroke_width 0.1,
                   ft_rotation = rotation, ft_text_type = text_type \<rparr>]\<rparr>)
      }))"

definition parse_hole :: "pylib \<Rightarrow> string list \<Rightarrow> EasyEdaFootprint \<Rightarrow> EasyEdaFootprint" where
  "parse_hole lib parts fp =
     (if length parts < 4 then fp
      else try_except fp (do {
        p1 \<leftarrow> idx parts 1;
        p2 \<leftarrow> idx parts 2;
        p3 \<leftarrow> idx parts 3;
        let x = parse_float lib p1 * SCALE;
        let y = parse_float lib p2 * SCALE;
        let diameter = parse_float lib p3 * SCALE;
        Some (fp\<lparr>fp_holes := fp_holes fp @ [\<lparr> fh_x = x, fh_y = - y, fh_diameter = diameter \<rparr>]\<rparr>)
      }))"

definition parse_via :: "pylib \<Rightarrow> string list \<Rightarrow> EasyEdaFootprint \<Rightarrow> EasyEdaFootprint" where
  "parse_via lib parts fp =
     (if length parts < 5 then fp
      else try_except fp (do {
        p1 \<leftarrow> idx parts 1;
        p2 \<leftarrow> idx parts 2;
        p3 \<leftarrow> idx parts 3;
        p4 \<leftarrow> idx parts 4;
        let x = parse_float lib p1 * SCALE;
        let y = parse_float lib p2 * SCALE;
        let diameter = parse_float lib p3 * SCALE;
        let drill = parse_float lib p4 * SCALE;
        let pad = \<lparr> pad_number = [], pad_x = x, pad_y = - y, pad_width = diameter,
                    pad_height = diameter, pad_shape = CIRCLE, pad_type = THRU_HOLE,
                    pad_rotation = 0, pad_drill_size = drill, pad_drill_shape = ''circle'',
                    pad_layers = [''*.Cu''], pad_roundrect_ratio = 0.25 \<rparr>;
        if drill > 0.1 then Some (fp\<lparr>fp_pads := fp_pads fp @ [pad]\<rparr>) else Some fp
      }))"

text \<open>
  \<open>_parse_shape_string\<close>: as for symbols, each parser handles its own exceptions, so the
  handler around the dispatch is never entered.
\<close>

definition parse_shape_string :: "pylib \<Rightarrow> string \<Rightarrow> EasyEdaFootprint \<Rightarrow> EasyEdaFootprint" where
  "parse_shape_string lib shape_str fp =
     (if shape_str = [] then fp
      else (case split ''~'' shape_str of
              [] \<Rightarrow> fp
            | p0 # rest \<Rightarrow>
               (let parts = p0 # rest; shape_type = upper p0
                in if shape_type = ''PAD'' then parse_pad lib parts fp
                   else if shape_type = ''TRACK'' then parse_track lib parts fp
                   else if shape_type = ''CIRCLE'' then fp_parse_circle lib parts fp
                   else if shape_type = ''ARC'' then fp_parse_arc lib parts fp
                   else if shape_type = ''RECT'' then parse_rect lib parts fp
                   else if shape_type = ''SOLIDREGION'' then parse_solid_region lib parts fp
                   else if shape_type = ''TEXT'' then fp_parse_text lib parts fp
                   else if shape_type = ''HOLE'' then parse_hole lib parts fp
                   else if shape_type = ''VIA'' then parse_via lib parts fp
                   else fp)))"

text \<open>The loop \<open>for shape in shapes\<close>: strings are parsed, dictionaries and all else skipped.\<close>

definition parse_shapes :: "pylib \<Rightarrow> pyval list \<Rightarrow> EasyEdaFootprint \<Rightarrow> EasyEdaFootprint" where
  "parse_shapes lib items fp =
     fold (\<lambda>shape fp. case shape of PyStr s \<Rightarrow> parse_shape_string lib s fp | _ \<Rightarrow> fp) items fp"

text \<open>
  \<open>_parse_footprint_data\<close> calls itself on a nested \<open>dataStr\<close> payload. The first argument is
  the number of nested calls the interpreter still allows; at \<open>0\<close> the call is the
  \<open>RecursionError\<close>. \<open>None\<close> is an exception that leaves the function: that one, a payload
  without \<open>get\<close>, or a shape value that cannot be iterated.
\<close>

fun parse_footprint_data ::
  "nat \<Rightarrow> pylib \<Rightarrow> pyval \<Rightarrow> EasyEdaFootprint \<Rightarrow> EasyEdaFootprint option" where
  "parse_footprint_data 0 lib data fp = None"
| "parse_footprint_data (Suc depth) lib data fp =
     (case data of
        PyDict kv \<Rightarrow>
          (let shapes0 = py_or (dict_get kv ''shape'') (py_or (dict_get kv ''shapes'') (PyList []));
               shapes = (case shapes0 of
                           PyStr s \<Rightarrow> PyList (map PyStr (split ''#@$'' s))
                         | _ \<Rightarrow> shapes0)
           in case py_iter shapes of
                None \<Rightarrow> None
              | Some items \<Rightarrow>
                 (let fp1 = parse_shapes lib items fp
                  in case map_of kv ''dataStr'' of
                       None \<Rightarrow> Some fp1
                     | Some nested0 \<Rightarrow>
                        (let nested = (case nested0 of
                                         PyStr s \<Rightarrow> (case json_loads lib s of
                                                       Some v \<Rightarrow> v | None \<Rightarrow> nested0)
                                       | _ \<Rightarrow> nested0)
                         in case nested of
                              PyDict kv' \<Rightarrow> parse_footprint_data depth lib nested fp1
                            | _ \<Rightarrow> Some fp1)))
      | _ \<Rightarrow> None)"

definition translate_point :: "real \<Rightarrow> real \<Rightarrow> Point \<Rightarrow> Point" where
  "translate_point center_x center_y pt = pt\<lparr>pt_x := pt_x pt - center_x, pt_y := pt_y pt - center_y\<rparr>"

definition calculate_bounds_and_center :: "EasyEdaFootprint \<Rightarrow> EasyEdaFootprint" where
  "calculate_bounds_and_center fp =
     (let pad_points = map (\<lambda>pad. (pad_x pad, pad_y pad)) (fp_pads fp);
          all_points =
            (if pad_points = []
             then concat (map (\<lambda>l. [(fl_x1 l, fl_y1 l), (fl_x2 l, fl_y2 l)]) (fp_lines fp))
                  @ map (\<lambda>c. (fc_cx c, fc_cy c)) (fp_circles fp)
             else pad_points)
      in case all_points of
           [] \<Rightarrow> fp
         | p # ps \<Rightarrow>
            (let min_x = lmin (fst p) (map fst ps); max_x = lmax (fst p) (map fst ps);
                 min_y = lmin (snd p) (map snd ps); max_y = lmax (snd p) (map snd ps);
                 center_x = (min_x + max_x) / 2; center_y = (min_y + max_y) / 2
             in fp\<lparr>fp_pads := map (\<lambda>pad. pad\<lparr>pad_x := pad_x pad - center_x,
                                              pad_y := pad_y pad - center_y\<rparr>) (fp_pads fp),
                   fp_lines := map (\<lambda>l. l\<lparr>fl_x1 := fl_x1 l - center_x, fl_y1 := fl_y1 l - center_y,
                                            fl_x2 := fl_x2 l - center_x, fl_y2 := fl_y2 l - center_y\<rparr>)
                                   (fp_lines fp),
                   fp_circles := map (\<lambda>c. c\<lparr>fc_cx := fc_cx c - center_x,
                                              fc_cy := fc_cy c - center_y\<rparr>) (fp_circles fp),
                   fp_arcs := map (\<lambda>a. a\<lparr>fa_cx := fa_cx a - center_x,
                                           fa_cy := fa_cy a - center_y\<rparr>) (fp_arcs fp),
                   fp_polygons := map (\<lambda>g. g\<lparr>fg_points := map (translate_point center_x center_y)
                                                                 (fg_points g)\<rparr>)
                                      (fp_polygons fp),
                   fp_texts := map (\<lambda>t. t\<lparr>ft_x := ft_x t - center_x,
                                            ft_y := ft_y t - center_y\<rparr>) (fp_texts fp),
                   fp_holes := map (\<lambda>h. h\<lparr>fh_x := fh_x h - center_x,
                                            fh_y := fh_y h - center_y\<rparr>) (fp_holes fp)\<rparr>))"

definition calculate_bounds :: "EasyEdaFootprint \<Rightarrow> EasyEdaFootprint" where
  "calculate_bounds fp =
     (let all_points =
            concat (map (\<lambda>pad. [(pad_x pad - pad_width pad / 2, pad_y pad - pad_height pad / 2),
                                (pad_x pad + pad_width pad / 2, pad_y pad + pad_height pad / 2)])
                        (fp_pads fp))
            @ concat (map (\<lambda>l. [(fl_x1 l, fl_y1 l), (fl_x2 l, fl_y2 l)]) (fp_lines fp))
            @ concat (map (\<lambda>c. [(fc_cx c - fc_radius c, fc_cy c - fc_radius c),
                                 (fc_cx c + fc_radius c, fc_cy c + fc_radius c)])
                          (fp_circles fp))
            @ concat (map (\<lambda>g. map (\<lambda>pt. (pt_x pt, pt_y pt)) (fg_points g)) (fp_polygons fp))
      in if all_points \<noteq> [] then fp\<lparr>fp_bounds := Some (bounding_box all_points)\<rparr> else fp)"

definition generate_courtyard :: "EasyEdaFootprint \<Rightarrow> EasyEdaFootprint" where
  "generate_courtyard fp =
     (case fp_bounds fp of
        None \<Rightarrow> fp
      | Some bounds \<Rightarrow>
         (case expand_bbox bounds 0.25 of
            (min_x, min_y, max_x, max_y) \<Rightarrow>
              fp\<lparr>fp_lines := fp_lines fp @
                   [\<lparr> fl_x1 = min_x, fl_y1 = min_y, fl_x2 = max_x, fl_y2 = min_y,
                       fl_layer = ''F.CrtYd'', fl_stroke_width = 0.05 \<rparr>,
                    \<lparr> fl_x1 = max_x, fl_y1 = min_y, fl_x2 = max_x, fl_y2 = max_y,
                       fl_layer = ''F.CrtYd'', fl_stroke_width = 0.05 \<rparr>,
                    \<lparr> fl_x1 = max_x, fl_y1 = max_y, fl_x2 = min_x, fl_y2 = max_y,
                       fl_layer = ''F.CrtYd'', fl_stroke_width = 0.05 \<rparr>,
                    \<lparr> fl_x1 = min_x, fl_y1 = max_y, fl_x2 = min_x, fl_y2 = min_y,
                       fl_layer = ''F.CrtYd'', fl_stroke_width = 0.05 \<rparr>]\<rparr>))"

text \<open>
  The steps of \<open>FootprintConverter.convert\<close> after \<open>_parse_footprint_data\<close>: centre, compute
  the bounds, and add a courtyard when no line lies on a courtyard layer.
\<close>

definition finish_conversion :: "EasyEdaFootprint \<Rightarrow> EasyEdaFootprint" where
  "finish_conversion fp0 =
     (let fp1 = calculate_bounds_and_center fp0;
          fp2 = calculate_bounds fp1
      in if \<not> has_courtyard fp2 then generate_courtyard fp2 else fp2)"

text \<open>
  \<open>FootprintConverter.convert\<close>, with the remaining recursion depth as first argument.
  \<open>None\<close> is the result of the two \<open>return None\<close>.
\<close>

definition footprint_convert ::
  "nat \<Rightarrow> pylib \<Rightarrow> pyval \<Rightarrow> string \<Rightarrow> EasyEdaFootprint option" where
  "footprint_convert depth lib footprint_data component_name =
     (case load_payload lib footprint_data of
        None \<Rightarrow> None
      | Some data \<Rightarrow>
         (case parse_footprint_data depth lib data (new_footprint component_name) of
            None \<Rightarrow> None
          | Some fp0 \<Rightarrow> Some (finish_conversion fp0)))"

section \<open>kicad/model3d_config.py\<close>

text \<open>
  One stored override is a dictionary with the optional keys \<open>offset\<close>, \<open>rotation\<close> and
  \<open>scale\<close>, each holding a list of numbers. The configuration object is its dictionary of
  overrides; \<open>save_overrides\<close> writes that dictionary to a file, handles its own exceptions
  and leaves the object unchanged. Tuples of numbers are lists.
\<close>

record Model3DOverride =
  ov_offset :: "real list option"
  ov_rotation :: "real list option"
  ov_scale :: "real list option"

record Model3DConfig =
  overrides :: "string \<rightharpoonup> Model3DOverride"

text \<open>A dictionary is true when it has at least one key.\<close>

definition override_truthy :: "Model3DOverride \<Rightarrow> bool" where
  "override_truthy ov = (ov_offset ov \<noteq> None \<or> ov_rotation ov \<noteq> None \<or> ov_scale ov \<noteq> None)"

definition list_of_triple :: "real \<times> real \<times> real \<Rightarrow> real list" where
  "list_of_triple t = (case t of (a, b, c) \<Rightarrow> [a, b, c])"

definition set_override ::
  "Model3DConfig \<Rightarrow> string \<Rightarrow> (real \<times> real \<times> real) option \<Rightarrow> (real \<times> real \<times> real) option
     \<Rightarrow> (real \<times> real \<times> real) option \<Rightarrow> Model3DConfig" where
  "set_override cfg lcsc_id offset rotation scale =
     (let key = upper lcsc_id;
          ov0 = (case overrides cfg key of
                   None \<Rightarrow> \<lparr> ov_offset = None, ov_rotation = None, ov_scale = None \<rparr>
                 | Some ov \<Rightarrow> ov);
          ov1 = (case offset of Some t \<Rightarrow> ov0\<lparr>ov_offset := Some (list_of_triple t)\<rparr> | None \<Rightarrow> ov0);
          ov2 = (case rotation of Some t \<Rightarrow> ov1\<lparr>ov_rotation := Some (list_of_triple t)\<rparr>
                                | None \<Rightarrow> ov1);
          ov3 = (case scale of Some t \<Rightarrow> ov2\<lparr>ov_scale := Some (list_of_triple t)\<rparr> | None \<Rightarrow> ov2)
      in cfg\<lparr>overrides := (overrides cfg)(key \<mapsto> ov3)\<rparr>)"

definition get_override :: "Model3DConfig \<Rightarrow> string \<Rightarrow> Model3DOverride option" where
  "get_override cfg lcsc_id = overrides cfg (upper lcsc_id)"

definition remove_override :: "Model3DConfig \<Rightarrow> string \<Rightarrow> Model3DConfig" where
  "remove_override cfg lcsc_id =
     (let key = upper lcsc_id
      in if key \<in> dom (overrides cfg) then cfg\<lparr>overrides := (overrides cfg)(key := None)\<rparr>
         else cfg)"

definition find_pin1 :: "EasyEdaFootprint \<Rightarrow> FootprintPad option" where
  "find_pin1 footprint =
     (case find (\<lambda>pad. pad_number pad \<in> set [''1'', ''A1'', ''A'', ''P1'']) (fp_pads footprint) of
        Some pad \<Rightarrow> Some pad
      | None \<Rightarrow>
         (let numbered_pads = filter (\<lambda>p. isdigit (pad_number p)) (fp_pads footprint)
          in if numbered_pads \<noteq> []
             then Some (hd (sort_key (\<lambda>p. int_of_digits (pad_number p)) numbered_pads))
             else (case fp_pads footprint of [] \<Rightarrow> None | p # ps \<Rightarrow> Some p)))"

definition calculate_rotation_from_pin1 ::
  "FootprintPad \<Rightarrow> real \<Rightarrow> real \<Rightarrow> real \<Rightarrow> real \<Rightarrow> real \<Rightarrow> real \<Rightarrow> real" where
  "calculate_rotation_from_pin1 pin1 centroid_x centroid_y min_x max_x min_y max_y =
     (let rel_x = pad_x pin1 - centroid_x;
          rel_y = pad_y pin1 - centroid_y;
          width = max_x - min_x;
          height = max_y - min_y
      in if width < 0.1 \<or> height < 0.1 then 0
         else (let threshold = 0.3
               in if rel_x < - width * threshold \<and> rel_y < - height * threshold then 0
                  else if rel_x > width * threshold \<and> rel_y < - height * threshold then 90
                  else if rel_x > width * threshold \<and> rel_y > height * threshold then 180
                  else if rel_x < - width * threshold \<and> rel_y > height * threshold then 270
                  else 0))"

definition calculate_heuristic_transform ::
  "EasyEdaFootprint \<Rightarrow> real list \<times> real list \<times> real list" where
  "calculate_heuristic_transform footprint =
     (case fp_pads footprint of
        [] \<Rightarrow> ([0, 0, 0], [0, 0, 0], [1, 1, 1])
      | p # ps \<Rightarrow>
         (let min_x = lmin (pad_x p) (map pad_x ps); max_x = lmax (pad_x p) (map pad_x ps);
              min_y = lmin (pad_y p) (map pad_y ps); max_y = lmax (pad_y p) (map pad_y ps);
              centroid_x = (min_x + max_x) / 2;
              centroid_y = (min_y + max_y) / 2;
              offset_x = - centroid_x;
              offset_y = - centroid_y;
              rotation_z = (case find_pin1 footprint of
                              Some pin1 \<Rightarrow> calculate_rotation_from_pin1 pin1 centroid_x centroid_y
                                             min_x max_x min_y max_y
                            | None \<Rightarrow> 0)
          in ([offset_x, offset_y, 0], [0, 0, rotation_z], [1, 1, 1])))"

definition calculate_transform ::
  "Model3DConfig \<Rightarrow> string \<Rightarrow> EasyEdaFootprint \<Rightarrow> real list \<times> real list \<times> real list" where
  "calculate_transform cfg lcsc_id footprint =
     (case get_override cfg lcsc_id of
        Some ov \<Rightarrow>
          (if override_truthy ov
           then (case ov_offset ov of Some v \<Rightarrow> v | None \<Rightarrow> [0, 0, 0],
                 case ov_rotation ov of Some v \<Rightarrow> v | None \<Rightarrow> [0, 0, 0],
                 case ov_scale ov of Some v \<Rightarrow> v | None \<Rightarrow> [1, 1, 1])
           else calculate_heuristic_transform footprint)
      | None \<Rightarrow> calculate_heuristic_transform footprint)"

section \<open>Example inputs and the predicates of the statements\<close>

text \<open>Payloads used to evaluate the converters.\<close>

definition example_three_pads :: pyval where
  "example_three_pads = PyDict [(''shape'', PyList [PyStr ''PAD~RECT~0~0~4~4~1~~1'',
                                            PyStr ''PAD~RECT~0~10~4~4~1~~2'',
                                            PyStr ''PAD~RECT~30~10~4~4~1~~3''])]"

definition example_one_pad :: pyval where
  "example_one_pad = PyDict [(''shape'', PyList [PyStr ''PAD~RECT~10~10~4~2~1~~1''])]"






text \<open>A symbol or footprint without geometry, and the fields that hold no geometry.\<close>

definition symbol_empty :: "EasyEdaSymbol \<Rightarrow> bool" where
  "symbol_empty symbol =
     (sym_pins symbol = [] \<and> sym_rectangles symbol = [] \<and> sym_polylines symbol = []
      \<and> sym_circles symbol = [] \<and> sym_arcs symbol = [] \<and> sym_texts symbol = [])"

definition symbol_header ::
  "EasyEdaSymbol \<Rightarrow> string \<times> string \<times> (string \<times> string) list \<times> real \<times> real \<times> int" where
  "symbol_header symbol =
     (sym_name symbol, sym_prefix symbol, sym_properties symbol, sym_offset_x symbol,
      sym_offset_y symbol, sym_unit_count symbol)"

definition footprint_empty :: "EasyEdaFootprint \<Rightarrow> bool" where
  "footprint_empty fp =
     (fp_pads fp = [] \<and> fp_lines fp = [] \<and> fp_circles fp = [] \<and> fp_arcs fp = []
      \<and> fp_polygons fp = [] \<and> fp_texts fp = [] \<and> fp_holes fp = [])"

definition footprint_header ::
  "EasyEdaFootprint \<Rightarrow> string \<times> string option \<times> (real \<times> real \<times> real) \<times> (real \<times> real \<times> real)
     \<times> (real \<times> real \<times> real) \<times> (real \<times> real \<times> real \<times> real) option" where
  "footprint_header fp =
     (fp_name fp, fp_model_3d_path fp, fp_model_3d_offset fp, fp_model_3d_rotation fp,
      fp_model_3d_scale fp, fp_bounds fp)"

definition example_unsupported :: pyval where
  "example_unsupported = PyDict [(''shape'', PyList [PyStr ''SVGNODE~abc'', PyStr []])]"

text \<open>
  A \<open>PAD\<close> command that the parser accepts (at least nine fields) and one that it rejects.
\<close>

definition valid_pad_command :: "string \<Rightarrow> bool" where
  "valid_pad_command s = (upper (hd (split ''~'' s)) = ''PAD'' \<and> 9 \<le> length (split ''~'' s))"

definition short_pad_command :: "string \<Rightarrow> bool" where
  "short_pad_command s = (upper (hd (split ''~'' s)) = ''PAD'' \<and> length (split ''~'' s) < 9)"

definition example_pads_front :: "string list" where
  "example_pads_front = [''PAD~RECT~0~0~4~4~1~~1'', ''PAD~RECT~10~0~4~4~1~~2'',
                         ''PAD~RECT~20~0~4~4~1~~3'', ''PAD~RECT~30~0~4~4~1~~4'']"

definition example_pads_back :: "string list" where
  "example_pads_back = [''PAD~OVAL~0~10~4~4~1~~5~1.5'', ''PAD~RECT~10~10~4~4~1~~6'',
                        ''PAD~RECT~20~10~4~4~1~~7'', ''PAD~RECT~30~10~4~4~1~~8'',
                        ''pad~ELLIPSE~40~10~4~4~1~~9~0~~90'']"

text \<open>
  Calls that change the override store, and a sequence of them applied in order.
\<close>

datatype config_call =
    SetOverride string "(real \<times> real \<times> real) option" "(real \<times> real \<times> real) option"
      "(real \<times> real \<times> real) option"
  | RemoveOverride string

fun call_id :: "config_call \<Rightarrow> string" where
  "call_id (SetOverride lcsc_id offset rotation scale) = lcsc_id"
| "call_id (RemoveOverride lcsc_id) = lcsc_id"

fun apply_call :: "config_call \<Rightarrow> Model3DConfig \<Rightarrow> Model3DConfig" where
  "apply_call (SetOverride lcsc_id offset rotation scale) cfg =
     set_override cfg lcsc_id offset rotation scale"
| "apply_call (RemoveOverride lcsc_id) cfg = remove_override cfg lcsc_id"

definition apply_calls :: "config_call list \<Rightarrow> Model3DConfig \<Rightarrow> Model3DConfig" where
  "apply_calls calls cfg = fold apply_call calls cfg"





section \<open>Properties\<close>

subsection \<open>Indexing and handlers\<close>

lemma idx_in_range [simp]: "i < length xs \<Longrightarrow> idx xs i = Some (xs ! i)"
  by (simp add: idx_def)

lemma try_except_Some [simp]: "try_except s (Some s') = s'"
  by (simp add: try_except_def)

subsection \<open>Pads\<close>

lemma parse_pad_appends:
  assumes "9 \<le> length parts"
  shows "fp_pads (parse_pad lib parts fp) = fp_pads fp @ [last (fp_pads (parse_pad lib parts fp))]"
  using assms by (simp add: parse_pad_def Let_def)

lemma parse_pad_type:
  assumes "9 \<le> length parts"
  shows "pad_type (last (fp_pads (parse_pad lib parts fp))) =
           (if 9 < length parts \<and> 0 < parse_float lib (parts ! 9) * SCALE then THRU_HOLE else SMD)"
  using assms by (simp add: parse_pad_def Let_def)

lemma parse_pad_drill:
  assumes "9 \<le> length parts"
  shows "pad_drill_size (last (fp_pads (parse_pad lib parts fp))) =
           (if 9 < length parts \<and> 0 < parse_float lib (parts ! 9) * SCALE
            then 2 * (parse_float lib (parts ! 9) * SCALE) else 0)"
  using assms by (simp add: parse_pad_def Let_def)

lemma parse_pad_accepted:
  assumes "9 \<le> length parts"
  shows "\<exists>pad. fp_pads (parse_pad lib parts fp) = fp_pads fp @ [pad]
           \<and> (pad_type pad = THRU_HOLE \<longleftrightarrow> 9 < length parts \<and> 0 < parse_float lib (parts ! 9) * SCALE)
           \<and> (pad_type pad = THRU_HOLE \<longrightarrow> pad_drill_size pad = 2 * (parse_float lib (parts ! 9) * SCALE))
           \<and> (pad_type pad \<noteq> THRU_HOLE \<longrightarrow> pad_type pad = SMD \<and> pad_drill_size pad = 0)"
proof (intro exI conjI)
  show "fp_pads (parse_pad lib parts fp) = fp_pads fp @ [last (fp_pads (parse_pad lib parts fp))]"
    by (rule parse_pad_appends [OF assms])
qed (simp_all add: parse_pad_type [OF assms] parse_pad_drill [OF assms])

lemma parse_shape_string_PAD:
  assumes "split ''~'' shape_str = parts" and "parts \<noteq> []" and "upper (hd parts) = ''PAD''" and "shape_str \<noteq> []"
  shows "parse_shape_string lib shape_str fp = parse_pad lib parts fp"
  using assms by (cases parts) (simp_all add: parse_shape_string_def)

lemma split_aux_nonempty: "split_aux sep cur s \<noteq> []"
  by (induction sep cur s rule: split_aux.induct) auto

lemma split_empty: "split sep [] = [[]]"
  by (simp add: split_def)

text \<open>
  C3: a \<open>PAD\<close> command with at least nine fields appends exactly one pad. The pad is
  \<open>thru_hole\<close> exactly when a tenth field is present and its scaled value, the hole radius,
  is positive; then the drill size is twice that radius. Otherwise the pad is \<open>smd\<close> with
  drill size 0.
\<close>

theorem pad_type_from_hole_radius:
  assumes "split ''~'' shape_str = parts" and "upper (hd parts) = ''PAD''" and "9 \<le> length parts"
  shows "\<exists>pad. fp_pads (parse_shape_string lib shape_str fp) = fp_pads fp @ [pad]
           \<and> (pad_type pad = THRU_HOLE \<longleftrightarrow> 9 < length parts \<and> 0 < parse_float lib (parts ! 9) * SCALE)
           \<and> (pad_type pad = THRU_HOLE \<longrightarrow> pad_drill_size pad = 2 * (parse_float lib (parts ! 9) * SCALE))
           \<and> (pad_type pad \<noteq> THRU_HOLE \<longrightarrow> pad_type pad = SMD \<and> pad_drill_size pad = 0)"
proof -
  from assms(3) have ne: "parts \<noteq> []" by auto
  have "shape_str \<noteq> []"
  proof
    assume "shape_str = []"
    with assms(1) have "parts = [[]]" by (simp add: split_empty)
    with assms(3) show False by simp
  qed
  with assms ne have eq: "parse_shape_string lib shape_str fp = parse_pad lib parts fp"
    by (simp add: parse_shape_string_PAD)
  from parse_pad_accepted [OF assms(3), of lib fp] obtain pad where
    "fp_pads (parse_pad lib parts fp) = fp_pads fp @ [pad]"
    "pad_type pad = THRU_HOLE \<longleftrightarrow> 9 < length parts \<and> 0 < parse_float lib (parts ! 9) * SCALE"
    "pad_type pad = THRU_HOLE \<longrightarrow> pad_drill_size pad = 2 * (parse_float lib (parts ! 9) * SCALE)"
    "pad_type pad \<noteq> THRU_HOLE \<longrightarrow> pad_type pad = SMD \<and> pad_drill_size pad = 0"
    by blast
  with eq show ?thesis by auto
qed

theorem pad_type_from_hole_radius_witness:
  "\<exists>pad. fp_pads (parse_shape_string example_lib ''PAD~RECT~10~20~5~5~1~~1~2~~90'' (new_footprint ''X''))
            = [pad] \<and> pad_type pad = THRU_HOLE \<and> pad_drill_size pad = 1.016"
proof -
  have s: "split ''~'' ''PAD~RECT~10~20~5~5~1~~1~2~~90''
           = [''PAD'', ''RECT'', ''10'', ''20'', ''5'', ''5'', ''1'', [], ''1'', ''2'', [], ''90'']"
    by code_simp
  have u: "upper (hd [''PAD'', ''RECT'', ''10'', ''20'', ''5'', ''5'', ''1'', [], ''1'', ''2'', [], ''90'']) = ''PAD''"
    by code_simp
  have f: "parse_float example_lib ''2'' = 2" by code_simp
  have e: "fp_pads (new_footprint ''X'') = []" by (simp add: new_footprint_def)
  from pad_type_from_hole_radius [OF s u, of example_lib "new_footprint ''X''"] f e
  show ?thesis by (auto simp: SCALE_def)
qed


subsection \<open>Pins\<close>

lemma parse_shape_P:
  assumes "split ''~'' shape_str = parts" and "parts \<noteq> []" and "upper (hd parts) = ''P''" and "shape_str \<noteq> []"
  shows "parse_shape lib shape_str symbol = parse_pin lib parts shape_str symbol"
  using assms by (cases parts) (simp_all add: parse_shape_def)

lemma parse_pin_appends:
  assumes "7 \<le> length parts"
  shows "sym_pins (parse_pin lib parts full_str symbol)
           = sym_pins symbol @ [last (sym_pins (parse_pin lib parts full_str symbol))]"
  using assms by (simp add: parse_pin_def Let_def)

lemma parse_pin_y:
  assumes "7 \<le> length parts"
  shows "pin_y (last (sym_pins (parse_pin lib parts full_str symbol)))
           = - (parse_float lib (parts ! 5) * SCALE)"
  using assms by (simp add: parse_pin_def Let_def)

lemma calculate_offset_pins: "sym_pins (calculate_offset symbol) = sym_pins symbol"
  by (simp add: calculate_offset_def Let_def split: list.splits)

text \<open>
  C6: a pin command \<open>P\<close> with at least seven fields whose field 5, the source y, is the
  number \<open>y\<close> appends one pin with y coordinate \<open>- (y * 0.254)\<close>: scaled and negated once.
  Computing the symbol offset afterwards leaves the pin as it is. The witness is the source
  y of 100, which gives -25.4.
\<close>

theorem pin_y_negated_once:
  assumes "split ''~'' shape_str = parts" and "upper (hd parts) = ''P''" and "7 \<le> length parts"
    and "py_float lib (parts ! 5) = Some y"
  shows "\<exists>pin. sym_pins (parse_shape lib shape_str symbol) = sym_pins symbol @ [pin]
           \<and> pin_y pin = - (y * 0.254)
           \<and> sym_pins (calculate_offset (parse_shape lib shape_str symbol)) = sym_pins symbol @ [pin]"
proof -
  from assms(3) have ne: "parts \<noteq> []" by auto
  have "shape_str \<noteq> []"
  proof
    assume "shape_str = []"
    with assms(1) have "parts = [[]]" by (simp add: split_empty)
    with assms(3) show False by simp
  qed
  with assms ne have eq: "parse_shape lib shape_str symbol = parse_pin lib parts shape_str symbol"
    by (simp add: parse_shape_P)
  let ?pin = "last (sym_pins (parse_pin lib parts shape_str symbol))"
  have a: "sym_pins (parse_shape lib shape_str symbol) = sym_pins symbol @ [?pin]"
    unfolding eq by (rule parse_pin_appends [OF assms(3)])
  have "pin_y ?pin = - (parse_float lib (parts ! 5) * SCALE)"
    by (rule parse_pin_y [OF assms(3)])
  with assms(4) have b: "pin_y ?pin = - (y * 0.254)"
    by (simp add: parse_float_def SCALE_def)
  from a b show ?thesis by (simp add: calculate_offset_pins)
qed

theorem pin_y_negated_once_witness:
  "\<exists>pin. sym_pins (parse_shape example_lib ''P~show~0~1~10~100~90~gge5'' (new_symbol ''X'')) = [pin]
         \<and> pin_y pin = - 25.4"
proof -
  have s: "split ''~'' ''P~show~0~1~10~100~90~gge5''
             = [''P'', ''show'', ''0'', ''1'', ''10'', ''100'', ''90'', ''gge5'']"
    by code_simp
  have u: "upper (hd [''P'', ''show'', ''0'', ''1'', ''10'', ''100'', ''90'', ''gge5'']) = ''P''"
    by code_simp
  have l: "7 \<le> length [''P'', ''show'', ''0'', ''1'', ''10'', ''100'', ''90'', ''gge5'']"
    by simp
  have f: "py_float example_lib ([''P'', ''show'', ''0'', ''1'', ''10'', ''100'', ''90'', ''gge5''] ! 5) = Some 100"
    by code_simp
  have e: "sym_pins (new_symbol ''X'') = []" by (simp add: new_symbol_def)
  from pin_y_negated_once [OF s u l f, of "new_symbol ''X''"] e
  show ?thesis by auto
qed

subsection \<open>Polygons\<close>

text \<open>
  C10: a \<open>PG\<close> command whose point list is empty appends no polyline, and
  \<open>_parse_polygon\<close> then sets the fill of the last polyline parsed before it. Here a
  polyline with fill \<open>none\<close> is followed by such a \<open>PG\<close> command; afterwards its fill is
  \<open>outline\<close>.
\<close>

theorem polygon_without_points_marks_previous_polyline:
  "map sp_fill (sym_polylines
      (sym_parse_shapes example_lib [PyStr ''PL~0 0 10 10~#880000~1~0~none~gge5~0'']
         (new_symbol ''X''))) = [''none'']
   \<and> map sp_fill (sym_polylines
      (sym_parse_shapes example_lib
         [PyStr ''PL~0 0 10 10~#880000~1~0~none~gge5~0'', PyStr ''PG~~#880000~1~0~none~gge6~0'']
         (new_symbol ''X''))) = [''outline'']"
  by code_simp

subsection \<open>Minimum and maximum of a sequence\<close>





subsection \<open>The steps after parsing\<close>



lemma calculate_bounds_lines: "fp_lines (calculate_bounds fp) = fp_lines fp"
  by (simp add: calculate_bounds_def Let_def)






lemma example_three_pads_converted:
  "map (\<lambda>pad. (pad_x pad, pad_y pad)) (fp_pads (the (footprint_convert 1 example_lib example_three_pads ''X'')))
     = [(- 3.81, 1.27), (- 3.81, - 1.27), (3.81, - 1.27)]"
  by code_simp



subsection \<open>Courtyard\<close>

lemma has_courtyard_centered: "has_courtyard (calculate_bounds_and_center fp) = has_courtyard fp"
  by (simp add: calculate_bounds_and_center_def has_courtyard_def Let_def list_ex_iff
           split: list.splits)

lemma has_courtyard_bounds: "has_courtyard (calculate_bounds fp) = has_courtyard fp"
  by (simp add: has_courtyard_def calculate_bounds_lines)

lemma generate_courtyard_lines:
  assumes "fp_bounds fp = Some (min_x, min_y, max_x, max_y)"
  shows "fp_lines (generate_courtyard fp) = fp_lines fp @
     [\<lparr> fl_x1 = min_x - 0.25, fl_y1 = min_y - 0.25, fl_x2 = max_x + 0.25, fl_y2 = min_y - 0.25,
         fl_layer = ''F.CrtYd'', fl_stroke_width = 0.05 \<rparr>,
      \<lparr> fl_x1 = max_x + 0.25, fl_y1 = min_y - 0.25, fl_x2 = max_x + 0.25, fl_y2 = max_y + 0.25,
         fl_layer = ''F.CrtYd'', fl_stroke_width = 0.05 \<rparr>,
      \<lparr> fl_x1 = max_x + 0.25, fl_y1 = max_y + 0.25, fl_x2 = min_x - 0.25, fl_y2 = max_y + 0.25,
         fl_layer = ''F.CrtYd'', fl_stroke_width = 0.05 \<rparr>,
      \<lparr> fl_x1 = min_x - 0.25, fl_y1 = max_y + 0.25, fl_x2 = min_x - 0.25, fl_y2 = min_y - 0.25,
         fl_layer = ''F.CrtYd'', fl_stroke_width = 0.05 \<rparr>]"
  using assms by (simp add: generate_courtyard_def expand_bbox_def)

lemma generate_courtyard_bounds: "fp_bounds (generate_courtyard fp) = fp_bounds fp"
  by (simp add: generate_courtyard_def expand_bbox_def split: option.splits prod.splits)

text \<open>
  C5: for a payload that is parsed to \<open>fp0\<close> and whose bounds are computed as
  \<open>(min_x, min_y, max_x, max_y)\<close>, the conversion returns the centred lines of \<open>fp0\<close>
  unchanged when one of them lies on a courtyard layer, and otherwise followed by exactly
  four lines on \<open>F.CrtYd\<close> with stroke width 0.05 that run around the rectangle 0.25 outside
  the bounds, each starting where the previous one ends.
\<close>

theorem courtyard_synthesis:
  assumes "load_payload lib data = Some d"
    and "parse_footprint_data depth lib d (new_footprint n) = Some fp0"
    and "fp_bounds (calculate_bounds (calculate_bounds_and_center fp0)) = Some (min_x, min_y, max_x, max_y)"
  shows "\<exists>fp. footprint_convert depth lib data n = Some fp
     \<and> fp_bounds fp = Some (min_x, min_y, max_x, max_y)
     \<and> fp_lines fp = fp_lines (calculate_bounds_and_center fp0) @
        (if has_courtyard fp0 then []
         else [\<lparr> fl_x1 = min_x - 0.25, fl_y1 = min_y - 0.25, fl_x2 = max_x + 0.25, fl_y2 = min_y - 0.25,
                  fl_layer = ''F.CrtYd'', fl_stroke_width = 0.05 \<rparr>,
               \<lparr> fl_x1 = max_x + 0.25, fl_y1 = min_y - 0.25, fl_x2 = max_x + 0.25, fl_y2 = max_y + 0.25,
                  fl_layer = ''F.CrtYd'', fl_stroke_width = 0.05 \<rparr>,
               \<lparr> fl_x1 = max_x + 0.25, fl_y1 = max_y + 0.25, fl_x2 = min_x - 0.25, fl_y2 = max_y + 0.25,
                  fl_layer = ''F.CrtYd'', fl_stroke_width = 0.05 \<rparr>,
               \<lparr> fl_x1 = min_x - 0.25, fl_y1 = max_y + 0.25, fl_x2 = min_x - 0.25, fl_y2 = min_y - 0.25,
                  fl_layer = ''F.CrtYd'', fl_stroke_width = 0.05 \<rparr>])"
proof -
  let ?fp2 = "calculate_bounds (calculate_bounds_and_center fp0)"
  have conv: "footprint_convert depth lib data n = Some (finish_conversion fp0)"
    using assms(1,2) by (simp add: footprint_convert_def)
  have hc: "has_courtyard ?fp2 = has_courtyard fp0"
    by (simp add: has_courtyard_bounds has_courtyard_centered)
  have fin: "finish_conversion fp0 = (if has_courtyard fp0 then ?fp2 else generate_courtyard ?fp2)"
    by (simp add: finish_conversion_def Let_def hc)
  have b: "fp_bounds (finish_conversion fp0) = Some (min_x, min_y, max_x, max_y)"
    by (simp add: fin generate_courtyard_bounds assms(3))
  have l: "fp_lines (finish_conversion fp0) = fp_lines (calculate_bounds_and_center fp0) @
        (if has_courtyard fp0 then []
         else [\<lparr> fl_x1 = min_x - 0.25, fl_y1 = min_y - 0.25, fl_x2 = max_x + 0.25, fl_y2 = min_y - 0.25,
                  fl_layer = ''F.CrtYd'', fl_stroke_width = 0.05 \<rparr>,
               \<lparr> fl_x1 = max_x + 0.25, fl_y1 = min_y - 0.25, fl_x2 = max_x + 0.25, fl_y2 = max_y + 0.25,
                  fl_layer = ''F.CrtYd'', fl_stroke_width = 0.05 \<rparr>,
               \<lparr> fl_x1 = max_x + 0.25, fl_y1 = max_y + 0.25, fl_x2 = min_x - 0.25, fl_y2 = max_y + 0.25,
                  fl_layer = ''F.CrtYd'', fl_stroke_width = 0.05 \<rparr>,
               \<lparr> fl_x1 = min_x - 0.25, fl_y1 = max_y + 0.25, fl_x2 = min_x - 0.25, fl_y2 = min_y - 0.25,
                  fl_layer = ''F.CrtYd'', fl_stroke_width = 0.05 \<rparr>])"
    by (simp add: fin generate_courtyard_lines [OF assms(3)] calculate_bounds_lines)
  from conv b l show ?thesis by blast
qed

theorem courtyard_synthesis_witness:
  "\<exists>fp. footprint_convert 1 example_lib example_one_pad ''X'' = Some fp
     \<and> fp_bounds fp = Some (- 0.508, - 0.254, 0.508, 0.254)
     \<and> fp_lines fp =
         [\<lparr> fl_x1 = - 0.758, fl_y1 = - 0.504, fl_x2 = 0.758, fl_y2 = - 0.504,
             fl_layer = ''F.CrtYd'', fl_stroke_width = 0.05 \<rparr>,
          \<lparr> fl_x1 = 0.758, fl_y1 = - 0.504, fl_x2 = 0.758, fl_y2 = 0.504,
             fl_layer = ''F.CrtYd'', fl_stroke_width = 0.05 \<rparr>,
          \<lparr> fl_x1 = 0.758, fl_y1 = 0.504, fl_x2 = - 0.758, fl_y2 = 0.504,
             fl_layer = ''F.CrtYd'', fl_stroke_width = 0.05 \<rparr>,
          \<lparr> fl_x1 = - 0.758, fl_y1 = 0.504, fl_x2 = - 0.758, fl_y2 = - 0.504,
             fl_layer = ''F.CrtYd'', fl_stroke_width = 0.05 \<rparr>]"
proof -
  let ?fp0 = "parse_shapes example_lib [PyStr ''PAD~RECT~10~10~4~2~1~~1''] (new_footprint ''X'')"
  have 1: "load_payload example_lib example_one_pad = Some example_one_pad"
    by (simp add: load_payload_def example_one_pad_def)
  have 2: "parse_footprint_data 1 example_lib example_one_pad (new_footprint ''X'') = Some ?fp0"
    by code_simp
  have 3: "fp_bounds (calculate_bounds (calculate_bounds_and_center ?fp0))
             = Some (- 0.508, - 0.254, 0.508, 0.254)"
    by code_simp
  have 4: "\<not> has_courtyard ?fp0" by code_simp
  have 5: "fp_lines (calculate_bounds_and_center ?fp0) = []" by code_simp
  from courtyard_synthesis [OF 1 2 3] 4 5 show ?thesis by simp
qed

subsection \<open>Stroke widths and font sizes\<close>

lemma stroke_floor [simp]: "1 \<le> max (a::real) (1 / 10) * 10"
  by (simp add: max_def)

lemma font_floor [simp]: "1 \<le> max (a::real) (1 / 2) * 2"
  by (simp add: max_def)

































lemma parse_shapes_Cons:
  "parse_shapes lib (item # items) fp =
     parse_shapes lib items (case item of PyStr s \<Rightarrow> parse_shape_string lib s fp | _ \<Rightarrow> fp)"
  by (simp add: parse_shapes_def)













subsection \<open>Parsing changes the geometry only\<close>

lemma parse_pin_header: "symbol_header (parse_pin lib parts full_str symbol) = symbol_header symbol"
  by (simp add: parse_pin_def symbol_header_def Let_def)

lemma parse_rectangle_header: "symbol_header (parse_rectangle lib parts symbol) = symbol_header symbol"
  by (simp add: parse_rectangle_def symbol_header_def Let_def)

lemma parse_polyline_header: "symbol_header (parse_polyline lib parts symbol) = symbol_header symbol"
  by (simp add: parse_polyline_def symbol_header_def Let_def)

lemma parse_line_header: "symbol_header (parse_line lib parts symbol) = symbol_header symbol"
  by (simp add: parse_line_def symbol_header_def Let_def)

lemma sym_parse_circle_header: "symbol_header (sym_parse_circle lib parts symbol) = symbol_header symbol"
  by (simp add: sym_parse_circle_def symbol_header_def Let_def)

lemma sym_parse_arc_header: "symbol_header (sym_parse_arc lib parts symbol) = symbol_header symbol"
  by (simp add: sym_parse_arc_def symbol_header_def Let_def)

lemma sym_parse_text_header: "symbol_header (sym_parse_text lib parts symbol) = symbol_header symbol"
  by (simp add: sym_parse_text_def symbol_header_def Let_def)

lemma parse_polygon_header: "symbol_header (parse_polygon lib parts symbol) = symbol_header symbol"
  using parse_polyline_header [of lib parts symbol]
  by (simp add: parse_polygon_def symbol_header_def Let_def)

lemma parse_shape_header: "symbol_header (parse_shape lib shape_str symbol) = symbol_header symbol"
  by (simp add: parse_shape_def Let_def parse_pin_header parse_rectangle_header
        parse_polyline_header parse_line_header sym_parse_circle_header sym_parse_arc_header
        sym_parse_text_header parse_polygon_header split: list.splits)

lemma sym_parse_shapes_header:
  "symbol_header (sym_parse_shapes lib items symbol) = symbol_header symbol"
proof (induction items arbitrary: symbol)
  case Nil
  show ?case by (simp add: sym_parse_shapes_def)
next
  case (Cons item items)
  have step: "sym_parse_shapes lib (item # items) symbol =
                sym_parse_shapes lib items
                  (case item of PyStr s \<Rightarrow> parse_shape lib s symbol | _ \<Rightarrow> symbol)"
    by (simp add: sym_parse_shapes_def)
  have "symbol_header (case item of PyStr s \<Rightarrow> parse_shape lib s symbol | _ \<Rightarrow> symbol)
          = symbol_header symbol"
    by (cases item) (simp_all add: parse_shape_header)
  with Cons.IH show ?case unfolding step by simp
qed

lemma symbol_empty_unique:
  assumes "symbol_empty s" and "symbol_empty s0" and "symbol_header s = symbol_header s0"
  shows "s = s0"
  using assms by (intro EasyEdaSymbol.equality) (simp_all add: symbol_empty_def symbol_header_def)

lemma calculate_offset_empty: "symbol_empty symbol \<Longrightarrow> calculate_offset symbol = symbol"
  by (simp add: calculate_offset_def symbol_empty_def)

lemma parse_pad_header: "footprint_header (parse_pad lib parts fp) = footprint_header fp"
  by (simp add: parse_pad_def footprint_header_def Let_def split: option.splits prod.splits)

lemma parse_track_header: "footprint_header (parse_track lib parts fp) = footprint_header fp"
  by (simp add: parse_track_def footprint_header_def Let_def split: option.splits prod.splits)

lemma fp_parse_circle_header: "footprint_header (fp_parse_circle lib parts fp) = footprint_header fp"
  by (simp add: fp_parse_circle_def footprint_header_def Let_def split: option.splits prod.splits)

lemma fp_parse_arc_header: "footprint_header (fp_parse_arc lib parts fp) = footprint_header fp"
  by (simp add: fp_parse_arc_def footprint_header_def Let_def split: option.splits prod.splits)

lemma parse_rect_header: "footprint_header (parse_rect lib parts fp) = footprint_header fp"
  by (simp add: parse_rect_def footprint_header_def Let_def split: option.splits prod.splits)

lemma parse_solid_region_header: "footprint_header (parse_solid_region lib parts fp) = footprint_header fp"
  by (simp add: parse_solid_region_def footprint_header_def Let_def split: option.splits prod.splits)

lemma fp_parse_text_header: "footprint_header (fp_parse_text lib parts fp) = footprint_header fp"
  by (simp add: fp_parse_text_def footprint_header_def Let_def split: option.splits prod.splits)

lemma parse_hole_header: "footprint_header (parse_hole lib parts fp) = footprint_header fp"
  by (simp add: parse_hole_def footprint_header_def Let_def split: option.splits prod.splits)

lemma parse_via_header: "footprint_header (parse_via lib parts fp) = footprint_header fp"
  by (simp add: parse_via_def footprint_header_def Let_def split: option.splits prod.splits)

lemma parse_shape_string_header:
  "footprint_header (parse_shape_string lib shape_str fp) = footprint_header fp"
  by (simp add: parse_shape_string_def Let_def parse_pad_header parse_track_header
        fp_parse_circle_header fp_parse_arc_header parse_rect_header parse_solid_region_header
        fp_parse_text_header parse_hole_header parse_via_header split: list.splits)

lemma parse_shapes_header: "footprint_header (parse_shapes lib items fp) = footprint_header fp"
proof (induction items arbitrary: fp)
  case Nil
  show ?case by (simp add: parse_shapes_def)
next
  case (Cons item items)
  have "footprint_header (case item of PyStr s \<Rightarrow> parse_shape_string lib s fp | _ \<Rightarrow> fp)
          = footprint_header fp"
    by (cases item) (simp_all add: parse_shape_string_header)
  with Cons.IH show ?case unfolding parse_shapes_Cons by simp
qed

lemma footprint_empty_unique:
  assumes "footprint_empty fp" and "footprint_empty fp0" and "footprint_header fp = footprint_header fp0"
  shows "fp = fp0"
  using assms
  by (intro EasyEdaFootprint.equality) (simp_all add: footprint_empty_def footprint_header_def)

lemma finish_conversion_empty:
  assumes "footprint_empty fp" and "fp_bounds fp = None"
  shows "finish_conversion fp = fp"
proof -
  from assms(1) have c: "calculate_bounds_and_center fp = fp"
    by (simp add: calculate_bounds_and_center_def footprint_empty_def)
  from assms(1) have b: "calculate_bounds fp = fp"
    by (simp add: calculate_bounds_def footprint_empty_def)
  from assms(2) have g: "generate_courtyard fp = fp"
    by (simp add: generate_courtyard_def)
  show ?thesis by (simp add: finish_conversion_def Let_def c b g)
qed

lemma parse_footprint_data_shape_list:
  "parse_footprint_data (Suc depth) lib (PyDict [(''shape'', PyList items)]) fp
     = Some (parse_shapes lib items fp)"
  by (cases items) (simp_all add: dict_get_def py_or_def)

text \<open>
  C1, as the code has it: for a payload \<open>{"shape": items}\<close> whose shapes produce no
  geometry, the symbol conversion returns the symbol object it started from (name, guessed
  prefix, no graphics, offset (0,0)) and the footprint conversion returns the footprint
  object it started from (name, no graphics, no bounds, no courtyard): an object without
  geometry, not \<open>None\<close>.
\<close>

theorem conversion_without_geometry_returns_object:
  "(symbol_empty (sym_parse_shapes lib items
        ((new_symbol n)\<lparr>sym_prefix := guess_reference_prefix d c\<rparr>)) \<longrightarrow>
      symbol_convert lib (PyDict [(''shape'', PyList items)]) n d c
        = Some ((new_symbol n)\<lparr>sym_prefix := guess_reference_prefix d c\<rparr>))
   \<and> (footprint_empty (parse_shapes lib items (new_footprint n)) \<longrightarrow>
      footprint_convert (Suc depth) lib (PyDict [(''shape'', PyList items)]) n
        = Some (new_footprint n))"
proof (intro conjI impI)
  let ?s0 = "(new_symbol n)\<lparr>sym_prefix := guess_reference_prefix d c\<rparr>"
  assume e: "symbol_empty (sym_parse_shapes lib items ?s0)"
  have "symbol_empty ?s0" by (simp add: symbol_empty_def new_symbol_def)
  with e have eq: "sym_parse_shapes lib items ?s0 = ?s0"
    by (rule symbol_empty_unique) (rule sym_parse_shapes_header)
  have "symbol_convert lib (PyDict [(''shape'', PyList items)]) n d c
          = Some (calculate_offset (sym_parse_shapes lib items ?s0))"
    by (simp add: symbol_convert_def load_payload_def Let_def)
  with e show "symbol_convert lib (PyDict [(''shape'', PyList items)]) n d c = Some ?s0"
    by (simp add: calculate_offset_empty eq)
next
  assume e: "footprint_empty (parse_shapes lib items (new_footprint n))"
  have "footprint_empty (new_footprint n)" by (simp add: footprint_empty_def new_footprint_def)
  with e have eq: "parse_shapes lib items (new_footprint n) = new_footprint n"
    by (rule footprint_empty_unique) (rule parse_shapes_header)
  have fin: "finish_conversion (new_footprint n) = new_footprint n"
    by (rule finish_conversion_empty) (simp_all add: footprint_empty_def new_footprint_def)
  have p: "parse_footprint_data (Suc depth) lib (PyDict [(''shape'', PyList items)]) (new_footprint n)
             = Some (new_footprint n)"
    unfolding parse_footprint_data_shape_list eq ..
  show "footprint_convert (Suc depth) lib (PyDict [(''shape'', PyList items)]) n
          = Some (new_footprint n)"
    unfolding footprint_convert_def load_payload_def
    by (simp del: parse_footprint_data.simps add: p fin)
qed

theorem conversion_without_geometry_returns_object_witness:
  "symbol_convert example_lib (PyDict [(''shape'', PyList [PyStr ''SVGNODE~abc'', PyStr []])])
       ''X'' ''chip'' ''ic'' = Some ((new_symbol ''X'')\<lparr>sym_prefix := ''U''\<rparr>)
   \<and> footprint_convert 1 example_lib (PyDict [(''shape'', PyList [PyStr ''SVGNODE~abc'', PyStr []])])
       ''X'' = Some (new_footprint ''X'')"
proof -
  have s: "symbol_empty (sym_parse_shapes example_lib [PyStr ''SVGNODE~abc'', PyStr []]
             ((new_symbol ''X'')\<lparr>sym_prefix := guess_reference_prefix ''chip'' ''ic''\<rparr>))"
    by code_simp
  have f: "footprint_empty (parse_shapes example_lib [PyStr ''SVGNODE~abc'', PyStr []]
             (new_footprint ''X''))"
    by code_simp
  have g: "guess_reference_prefix ''chip'' ''ic'' = ''U''" by code_simp
  from conversion_without_geometry_returns_object
         [where lib = example_lib and items = "[PyStr ''SVGNODE~abc'', PyStr []]" and n = "''X''"
            and d = "''chip''" and c = "''ic''" and depth = 0] s f g
  show ?thesis by simp
qed

text \<open>
  A payload with one unsupported shape and one empty shape: both conversions return an
  object, the one without geometry.
\<close>

theorem no_geometry_not_None:
  "symbol_convert example_lib example_unsupported ''X'' [] [] \<noteq> None
   \<and> symbol_empty (the (symbol_convert example_lib example_unsupported ''X'' [] []))
   \<and> footprint_convert 1 example_lib example_unsupported ''X'' \<noteq> None
   \<and> footprint_empty (the (footprint_convert 1 example_lib example_unsupported ''X''))"
  by code_simp

subsection \<open>Malformed shapes\<close>

lemma split_nonempty: "split sep s \<noteq> []"
  by (simp add: split_def split_aux_nonempty)

lemma parse_shape_string_valid_pad:
  assumes "valid_pad_command s"
  shows "length (fp_pads (parse_shape_string lib s fp)) = Suc (length (fp_pads fp))"
proof -
  let ?parts = "split ''~'' s"
  from assms have u: "upper (hd ?parts) = ''PAD''" and l: "9 \<le> length ?parts"
    by (simp_all add: valid_pad_command_def)
  have "s \<noteq> []"
  proof
    assume "s = []"
    with l show False by (simp add: split_empty)
  qed
  with u have "parse_shape_string lib s fp = parse_pad lib ?parts fp"
    by (intro parse_shape_string_PAD) (simp_all add: split_nonempty)
  with parse_pad_appends [OF l, of lib fp] show ?thesis
    by (metis length_append_singleton)
qed

lemma parse_shape_string_short_pad:
  assumes "short_pad_command s"
  shows "parse_shape_string lib s fp = fp"
proof (cases "s = []")
  case True
  then show ?thesis by (simp add: parse_shape_string_def)
next
  case False
  let ?parts = "split ''~'' s"
  from assms have u: "upper (hd ?parts) = ''PAD''" and l: "length ?parts < 9"
    by (simp_all add: short_pad_command_def)
  from u False have "parse_shape_string lib s fp = parse_pad lib ?parts fp"
    by (intro parse_shape_string_PAD) (simp_all add: split_nonempty)
  with l show ?thesis by (simp add: parse_pad_def)
qed

lemma parse_shapes_append:
  "parse_shapes lib (xs @ ys) fp = parse_shapes lib ys (parse_shapes lib xs fp)"
  by (simp add: parse_shapes_def)

lemma parse_shapes_valid_pads:
  "\<forall>s \<in> set xs. valid_pad_command s \<Longrightarrow>
     length (fp_pads (parse_shapes lib (map PyStr xs) fp)) = length (fp_pads fp) + length xs"
proof (induction xs arbitrary: fp)
  case Nil
  show ?case by (simp add: parse_shapes_def)
next
  case (Cons x xs)
  from Cons.prems have "valid_pad_command x" and rest: "\<forall>s \<in> set xs. valid_pad_command s"
    by simp_all
  then have "length (fp_pads (parse_shape_string lib x fp)) = Suc (length (fp_pads fp))"
    by (simp add: parse_shape_string_valid_pad)
  with Cons.IH [OF rest, of "parse_shape_string lib x fp"] show ?case
    by (simp add: parse_shapes_Cons)
qed

text \<open>
  C9: a shape list with nine valid \<open>PAD\<close> commands and, anywhere among them, one \<open>PAD\<close>
  command with fewer than nine fields (three, for one). Parsing returns a footprint, with
  exactly nine pads, and it is the footprint that the list without the malformed command
  gives: the command is skipped and the shapes after it are processed.
\<close>

theorem malformed_pad_is_skipped:
  assumes "\<forall>s \<in> set (xs @ ys). valid_pad_command s" and "length xs + length ys = 9"
    and "short_pad_command bad"
  shows "parse_footprint_data (Suc depth) lib
           (PyDict [(''shape'', PyList (map PyStr (xs @ bad # ys)))]) (new_footprint n)
           = Some (parse_shapes lib (map PyStr (xs @ ys)) (new_footprint n))
       \<and> length (fp_pads (parse_shapes lib (map PyStr (xs @ ys)) (new_footprint n))) = 9
       \<and> footprint_convert (Suc depth) lib
           (PyDict [(''shape'', PyList (map PyStr (xs @ bad # ys)))]) n \<noteq> None"
proof -
  let ?fp = "parse_shapes lib (map PyStr xs) (new_footprint n)"
  have skip: "parse_shapes lib (map PyStr (xs @ bad # ys)) (new_footprint n)
                = parse_shapes lib (map PyStr (xs @ ys)) (new_footprint n)"
    by (simp add: parse_shapes_append parse_shapes_Cons parse_shape_string_short_pad [OF assms(3)])
  have p: "parse_footprint_data (Suc depth) lib
             (PyDict [(''shape'', PyList (map PyStr (xs @ bad # ys)))]) (new_footprint n)
             = Some (parse_shapes lib (map PyStr (xs @ ys)) (new_footprint n))"
    unfolding parse_footprint_data_shape_list skip ..
  have n: "length (fp_pads (parse_shapes lib (map PyStr (xs @ ys)) (new_footprint n))) = 9"
    using parse_shapes_valid_pads [OF assms(1), of lib "new_footprint n"] assms(2)
    by (simp add: new_footprint_def)
  have c: "footprint_convert (Suc depth) lib
             (PyDict [(''shape'', PyList (map PyStr (xs @ bad # ys)))]) n \<noteq> None"
    by (simp only: footprint_convert_def load_payload_def pyval.case p option.case) simp
  from p n c show ?thesis by blast
qed

theorem malformed_pad_is_skipped_witness:
  "length (fp_pads (the (parse_footprint_data 1 example_lib
      (PyDict [(''shape'', PyList (map PyStr (example_pads_front @ ''PAD~RECT~10'' # example_pads_back)))])
      (new_footprint ''X'')))) = 9"
proof -
  have v: "\<forall>s \<in> set (example_pads_front @ example_pads_back). valid_pad_command s"
    by code_simp
  have l: "length example_pads_front + length example_pads_back = 9"
    by (simp add: example_pads_front_def example_pads_back_def)
  have b: "short_pad_command ''PAD~RECT~10''" by code_simp
  from malformed_pad_is_skipped [OF v l b, of 0 example_lib "''X''"] show ?thesis by simp
qed

subsection \<open>Overrides\<close>

lemma apply_call_other:
  "upper (call_id call) \<noteq> key \<Longrightarrow> overrides (apply_call call cfg) key = overrides cfg key"
  by (cases call) (auto simp: set_override_def remove_override_def Let_def)

lemma apply_calls_other:
  "\<forall>call \<in> set calls. upper (call_id call) \<noteq> key \<Longrightarrow>
     overrides (apply_calls calls cfg) key = overrides cfg key"
proof (induction calls arbitrary: cfg)
  case Nil
  show ?case by (simp add: apply_calls_def)
next
  case (Cons call calls)
  from Cons.prems have "upper (call_id call) \<noteq> key"
    and rest: "\<forall>call \<in> set calls. upper (call_id call) \<noteq> key" by simp_all
  then have "overrides (apply_call call cfg) key = overrides cfg key"
    by (simp add: apply_call_other)
  with Cons.IH [OF rest, of "apply_call call cfg"] show ?case
    by (simp add: apply_calls_def)
qed

lemma set_override_rotation:
  "\<exists>ov. overrides (set_override cfg lcsc_id offset (Some (rx, ry, rz)) scale) (upper lcsc_id) = Some ov
     \<and> ov_rotation ov = Some [rx, ry, rz]
     \<and> ov_offset ov = (case offset of
                          Some t \<Rightarrow> Some (list_of_triple t)
                        | None \<Rightarrow> (case overrides cfg (upper lcsc_id) of
                                     Some old \<Rightarrow> ov_offset old | None \<Rightarrow> None))
     \<and> ov_scale ov = (case scale of
                         Some t \<Rightarrow> Some (list_of_triple t)
                       | None \<Rightarrow> (case overrides cfg (upper lcsc_id) of
                                    Some old \<Rightarrow> ov_scale old | None \<Rightarrow> None))"
  by (simp add: set_override_def Let_def list_of_triple_def split: option.splits)

lemma remove_override_gone: "overrides (remove_override cfg lcsc_id) (upper lcsc_id) = None"
  by (auto simp: remove_override_def Let_def)

text \<open>
  C4: after \<open>set_override(id, rotation=(0,0,45))\<close>, with any offset and scale arguments and
  followed by any calls on other identifiers, \<open>calculate_transform(id, footprint)\<close> returns
  the rotation (0,0,45) for every footprint; its offset and scale are the stored ones, or
  the zero vector and the unit vector where the stored override has none. After
  \<open>remove_override(id)\<close> it returns the heuristic transform.
\<close>

theorem override_precedence:
  assumes "\<forall>call \<in> set calls. upper (call_id call) \<noteq> upper lcsc_id"
  shows "\<exists>ov. get_override
                (apply_calls calls (set_override cfg lcsc_id offset (Some (0, 0, 45)) scale)) lcsc_id
              = Some ov
     \<and> calculate_transform
          (apply_calls calls (set_override cfg lcsc_id offset (Some (0, 0, 45)) scale))
          lcsc_id footprint
        = (case ov_offset ov of Some v \<Rightarrow> v | None \<Rightarrow> [0, 0, 0],
           [0, 0, 45],
           case ov_scale ov of Some v \<Rightarrow> v | None \<Rightarrow> [1, 1, 1])
     \<and> calculate_transform
          (remove_override
             (apply_calls calls (set_override cfg lcsc_id offset (Some (0, 0, 45)) scale)) lcsc_id)
          lcsc_id footprint
        = calculate_heuristic_transform footprint"
proof -
  let ?cfg1 = "apply_calls calls (set_override cfg lcsc_id offset (Some (0, 0, 45)) scale)"
  from set_override_rotation [of cfg lcsc_id offset 0 0 45 scale] obtain ov where
    st: "overrides (set_override cfg lcsc_id offset (Some (0, 0, 45)) scale) (upper lcsc_id) = Some ov"
    and rot: "ov_rotation ov = Some [0, 0, 45]"
    by blast
  have g: "get_override ?cfg1 lcsc_id = Some ov"
    by (simp add: get_override_def apply_calls_other [OF assms] st)
  from rot have t: "override_truthy ov" by (simp add: override_truthy_def)
  have c: "calculate_transform ?cfg1 lcsc_id footprint
             = (case ov_offset ov of Some v \<Rightarrow> v | None \<Rightarrow> [0, 0, 0],
                [0, 0, 45],
                case ov_scale ov of Some v \<Rightarrow> v | None \<Rightarrow> [1, 1, 1])"
    by (simp add: calculate_transform_def g t rot)
  have r: "calculate_transform (remove_override ?cfg1 lcsc_id) lcsc_id footprint
             = calculate_heuristic_transform footprint"
    by (simp add: calculate_transform_def get_override_def remove_override_gone)
  from g c r show ?thesis by blast
qed

theorem override_precedence_witness:
  "calculate_transform
     (apply_calls [SetOverride ''c2'' None (Some (0, 0, 90)) None, RemoveOverride ''C3'']
        (set_override \<lparr> overrides = Map.empty \<rparr> ''c1'' None (Some (0, 0, 45)) None))
     ''C1'' (new_footprint ''X'')
   = ([0, 0, 0], [0, 0, 45], [1, 1, 1])"
proof -
  have h: "\<forall>call \<in> set [SetOverride ''c2'' None (Some (0, 0, 90)) None, RemoveOverride ''C3''].
             upper (call_id call) \<noteq> upper ''c1''"
    by code_simp
  have u: "upper ''C1'' = upper ''c1''" by code_simp
  have o: "overrides (set_override \<lparr> overrides = Map.empty \<rparr> ''c1'' None (Some (0, 0, 45)) None)
             (upper ''c1'') = Some \<lparr> ov_offset = None, ov_rotation = Some [0, 0, 45], ov_scale = None \<rparr>"
    by (simp add: set_override_def Let_def list_of_triple_def)
  from override_precedence [OF h, of "\<lparr> overrides = Map.empty \<rparr>" None None "new_footprint ''X''"]
  obtain ov where
    g: "get_override (apply_calls [SetOverride ''c2'' None (Some (0, 0, 90)) None, RemoveOverride ''C3'']
          (set_override \<lparr> overrides = Map.empty \<rparr> ''c1'' None (Some (0, 0, 45)) None)) ''c1'' = Some ov"
    and c: "calculate_transform
          (apply_calls [SetOverride ''c2'' None (Some (0, 0, 90)) None, RemoveOverride ''C3'']
             (set_override \<lparr> overrides = Map.empty \<rparr> ''c1'' None (Some (0, 0, 45)) None))
          ''c1'' (new_footprint ''X'')
        = (case ov_offset ov of Some v \<Rightarrow> v | None \<Rightarrow> [0, 0, 0], [0, 0, 45],
           case ov_scale ov of Some v \<Rightarrow> v | None \<Rightarrow> [1, 1, 1])"
    by blast
  from g have "ov = \<lparr> ov_offset = None, ov_rotation = Some [0, 0, 45], ov_scale = None \<rparr>"
    by (simp add: get_override_def apply_calls_other [OF h] o)
  with c have "calculate_transform
          (apply_calls [SetOverride ''c2'' None (Some (0, 0, 90)) None, RemoveOverride ''C3'']
             (set_override \<lparr> overrides = Map.empty \<rparr> ''c1'' None (Some (0, 0, 45)) None))
          ''c1'' (new_footprint ''X'') = ([0, 0, 0], [0, 0, 45], [1, 1, 1])"
    by simp
  then show ?thesis by (simp add: calculate_transform_def get_override_def u)
qed

subsection \<open>The rotation heuristic\<close>






end
